theory Spec2Isabelle
  imports Complex_Main "HOL-Library.Word" "HOL-Library.Signed_Division" "HOL-Library.Log_Nat"
begin

section \<open>Data model\<close>

text \<open>
  Go's \<open>float64\<close>: a finite value (a rational number, which the operations below keep
  on the grid of IEEE-754 binary64), the two infinities, or NaN. The two zeros are
  identified: none of the functions modelled here tells \<open>-0\<close> from \<open>+0\<close>
  (comparisons treat them as equal, and no modelled division has a zero divisor).
\<close>

datatype f64 = Finite rat | PInf | NInf | NaN

text \<open>Go's comparison operators on \<open>float64\<close>: every comparison with NaN is false.\<close>

fun f64_le :: "f64 \<Rightarrow> f64 \<Rightarrow> bool" where
  "f64_le NaN y = False"
| "f64_le x NaN = False"
| "f64_le NInf y = True"
| "f64_le x PInf = True"
| "f64_le PInf y = False"
| "f64_le x NInf = False"
| "f64_le (Finite x) (Finite y) = (x \<le> y)"

fun f64_ge :: "f64 \<Rightarrow> f64 \<Rightarrow> bool" where
  "f64_ge NaN y = False"
| "f64_ge x NaN = False"
| "f64_ge PInf y = True"
| "f64_ge x NInf = True"
| "f64_ge NInf y = False"
| "f64_ge x PInf = False"
| "f64_ge (Finite x) (Finite y) = (y \<le> x)"

fun f64_lt :: "f64 \<Rightarrow> f64 \<Rightarrow> bool" where
  "f64_lt NaN y = False"
| "f64_lt x NaN = False"
| "f64_lt PInf y = False"
| "f64_lt x NInf = False"
| "f64_lt NInf y = True"
| "f64_lt x PInf = True"
| "f64_lt (Finite x) (Finite y) = (x < y)"

fun f64_eq :: "f64 \<Rightarrow> f64 \<Rightarrow> bool" where
  "f64_eq NaN y = False"
| "f64_eq x NaN = False"
| "f64_eq x y = (x = y)"

subsection \<open>Rounding to binary64\<close>

text \<open>
  Every arithmetic operation of Go on \<open>float64\<close> returns the exact result rounded to
  the nearest binary64 value, ties to the even mantissa. \<open>pow2 k\<close> is \<open>2^k\<close> for any
  integer \<open>k\<close>; \<open>ilog2 a\<close> is the binary exponent of a positive rational
  (\<open>2^(ilog2 a) \<le> a < 2^(ilog2 a + 1)\<close>); \<open>ulp_exp a\<close> is the exponent of the unit
  in the last place of the 53-bit mantissa, subnormals included. The largest finite
  binary64 is \<open>(2^53 - 1) * 2^971\<close>; anything that rounds above it becomes infinite.
\<close>

definition pow2 :: "int \<Rightarrow> rat" where
  "pow2 k = (if 0 \<le> k then 2 ^ nat k else 1 / 2 ^ nat (- k))"

definition ilog2 :: "rat \<Rightarrow> int" where
  "ilog2 a = (let (n, d) = quotient_of a;
                  k = bitlen n - bitlen d
              in if pow2 k \<le> a then k else k - 1)"

definition round_half_even :: "rat \<Rightarrow> int" where
  "round_half_even a =
     (let n = \<lfloor>a\<rfloor>; r = a - of_int n
      in if r < 1 / 2 then n else if 1 / 2 < r then n + 1 else if even n then n else n + 1)"

definition ulp_exp :: "rat \<Rightarrow> int" where
  "ulp_exp a = max (- 1074) (ilog2 a - 52)"

definition f64_round :: "rat \<Rightarrow> f64" where
  "f64_round q =
     (if q = 0 then Finite 0
      else
        let e = ulp_exp \<bar>q\<bar>;
            m = round_half_even (\<bar>q\<bar> / pow2 e)
        in if 971 < e \<or> (e = 971 \<and> 2 ^ 53 \<le> m) then (if 0 < q then PInf else NInf)
           else Finite (sgn q * (of_int m * pow2 e)))"

text \<open>A rational is a binary64 value when rounding leaves it unchanged.\<close>

definition is_f64 :: "rat \<Rightarrow> bool" where
  "is_f64 q = (f64_round q = Finite q)"

subsection \<open>Arithmetic on \<open>float64\<close>\<close>

fun f64_neg :: "f64 \<Rightarrow> f64" where
  "f64_neg NaN = NaN"
| "f64_neg PInf = NInf"
| "f64_neg NInf = PInf"
| "f64_neg (Finite x) = Finite (- x)"

fun f64_add :: "f64 \<Rightarrow> f64 \<Rightarrow> f64" where
  "f64_add NaN y = NaN"
| "f64_add x NaN = NaN"
| "f64_add PInf NInf = NaN"
| "f64_add NInf PInf = NaN"
| "f64_add PInf y = PInf"
| "f64_add NInf y = NInf"
| "f64_add x PInf = PInf"
| "f64_add x NInf = NInf"
| "f64_add (Finite x) (Finite y) = f64_round (x + y)"

fun f64_sub :: "f64 \<Rightarrow> f64 \<Rightarrow> f64" where
  "f64_sub NaN y = NaN"
| "f64_sub x NaN = NaN"
| "f64_sub PInf PInf = NaN"
| "f64_sub NInf NInf = NaN"
| "f64_sub PInf y = PInf"
| "f64_sub NInf y = NInf"
| "f64_sub x PInf = NInf"
| "f64_sub x NInf = PInf"
| "f64_sub (Finite x) (Finite y) = f64_round (x - y)"

text \<open>The sign of an infinite product or quotient; \<open>s\<close> is the sign of the finite operand.\<close>

definition inf_of_sign :: "rat \<Rightarrow> f64" where
  "inf_of_sign s = (if s = 0 then NaN else if 0 < s then PInf else NInf)"

fun f64_mul :: "f64 \<Rightarrow> f64 \<Rightarrow> f64" where
  "f64_mul NaN y = NaN"
| "f64_mul x NaN = NaN"
| "f64_mul PInf PInf = PInf"
| "f64_mul PInf NInf = NInf"
| "f64_mul NInf PInf = NInf"
| "f64_mul NInf NInf = PInf"
| "f64_mul PInf (Finite y) = inf_of_sign y"
| "f64_mul NInf (Finite y) = inf_of_sign (- y)"
| "f64_mul (Finite x) PInf = inf_of_sign x"
| "f64_mul (Finite x) NInf = inf_of_sign (- x)"
| "f64_mul (Finite x) (Finite y) = f64_round (x * y)"

text \<open>
  Division. The divisors of the modelled code are the non-zero constants 3600 and 60;
  for a zero divisor the result given here is the one for \<open>+0\<close>.
\<close>

fun f64_div :: "f64 \<Rightarrow> f64 \<Rightarrow> f64" where
  "f64_div NaN y = NaN"
| "f64_div x NaN = NaN"
| "f64_div PInf (Finite y) = (if 0 \<le> y then PInf else NInf)"
| "f64_div NInf (Finite y) = (if 0 \<le> y then NInf else PInf)"
| "f64_div PInf y = NaN"
| "f64_div NInf y = NaN"
| "f64_div (Finite x) PInf = Finite 0"
| "f64_div (Finite x) NInf = Finite 0"
| "f64_div (Finite x) (Finite y) = (if y = 0 then inf_of_sign x else f64_round (x / y))"

subsection \<open>Conversions between integers and \<open>float64\<close>\<close>

text \<open>\<open>float64(n)\<close> for an integer \<open>n\<close>: the nearest binary64 value.\<close>

definition f64_of_int :: "int \<Rightarrow> f64" where
  "f64_of_int n = f64_round (of_int n)"

text \<open>
  \<open>intN(f)\<close> for a \<open>float64\<close> \<open>f\<close>: the fraction is discarded (truncation towards
  zero). When the truncated value does not fit the target type, or \<open>f\<close> is NaN or
  infinite, the Go specification leaves the result to the implementation: \<open>None\<close>.
\<close>

definition truncate_rat :: "rat \<Rightarrow> int" where
  "truncate_rat q = (if 0 \<le> q then \<lfloor>q\<rfloor> else \<lceil>q\<rceil>)"

definition f64_to_int :: "nat \<Rightarrow> f64 \<Rightarrow> int option" where
  "f64_to_int w f =
     (case f of
        Finite q \<Rightarrow>
          (let n = truncate_rat q
           in if - (2 ^ (w - 1)) \<le> n \<and> n < 2 ^ (w - 1) then Some n else None)
      | _ \<Rightarrow> None)"

text \<open>Go's \<open>int32\<close> is a 32-bit word read as two's complement.\<close>

type_synonym int32 = "32 word"

definition int32_le :: "int32 \<Rightarrow> int32 \<Rightarrow> bool" where
  "int32_le a b = (sint a \<le> sint b)"

definition int32_ge :: "int32 \<Rightarrow> int32 \<Rightarrow> bool" where
  "int32_ge a b = (sint a \<ge> sint b)"

definition int32_lt :: "int32 \<Rightarrow> int32 \<Rightarrow> bool" where
  "int32_lt a b = (sint a < sint b)"

text \<open>\<open>type Interval struct { Months int32; Days int32; Seconds float64 }\<close>\<close>

record Interval =
  Months :: int32
  Days :: int32
  Seconds :: f64

section \<open>Ordering and comparison\<close>

definition Equal :: "Interval \<Rightarrow> Interval \<Rightarrow> bool" where
  "Equal i i2 = (Months i = Months i2 \<and> Days i = Days i2 \<and> f64_eq (Seconds i) (Seconds i2))"

definition LessOrEqual :: "Interval \<Rightarrow> Interval \<Rightarrow> bool" where
  "LessOrEqual i i2 =
     (int32_le (Months i) (Months i2) \<and> int32_le (Days i) (Days i2) \<and>
      f64_le (Seconds i) (Seconds i2))"

definition GreaterOrEqual :: "Interval \<Rightarrow> Interval \<Rightarrow> bool" where
  "GreaterOrEqual i i2 =
     (int32_ge (Months i) (Months i2) \<and> int32_ge (Days i) (Days i2) \<and>
      f64_ge (Seconds i) (Seconds i2))"

definition Comparable :: "Interval \<Rightarrow> Interval \<Rightarrow> bool" where
  "Comparable i i2 = (LessOrEqual i i2 \<or> GreaterOrEqual i i2)"

section \<open>Arithmetic\<close>

text \<open>
  The receiver is passed by value; the updated copy is returned. \<open>+=\<close> and \<open>-=\<close> on
  \<open>int32\<close> wrap around.
\<close>

definition Add :: "Interval \<Rightarrow> Interval \<Rightarrow> Interval" where
  "Add i add =
     i\<lparr>Months := Months i + Months add,
       Days := Days i + Days add,
       Seconds := f64_add (Seconds i) (Seconds add)\<rparr>"

definition Sub :: "Interval \<Rightarrow> Interval \<Rightarrow> Interval" where
  "Sub i sub =
     i\<lparr>Months := Months i - Months sub,
       Days := Days i - Days sub,
       Seconds := f64_sub (Seconds i) (Seconds sub)\<rparr>"

section \<open>Normalized components\<close>

text \<open>
  \<open>i.Months / 12\<close> and \<open>i.Months % 12\<close> on \<open>int32\<close>: Go truncates the quotient
  towards zero and gives the remainder the sign of the dividend.
\<close>

definition NormalYears :: "Interval \<Rightarrow> int32" where
  "NormalYears i = word_of_int (sint (Months i) sdiv 12)"

definition NormalMonths :: "Interval \<Rightarrow> int32" where
  "NormalMonths i = word_of_int (sint (Months i) smod 12)"

text \<open>\<open>int32(i.Seconds / 3600)\<close>\<close>

definition NormalHours :: "Interval \<Rightarrow> int32 option" where
  "NormalHours i =
     map_option word_of_int (f64_to_int 32 (f64_div (Seconds i) (Finite 3600)))"

text \<open>\<open>int8((i.Seconds - float64(i.NormalHours())*3600) / 60)\<close>\<close>

definition NormalMinutes :: "Interval \<Rightarrow> 8 word option" where
  "NormalMinutes i =
     (case NormalHours i of
        None \<Rightarrow> None
      | Some h \<Rightarrow>
          map_option word_of_int
            (f64_to_int 8
               (f64_div
                  (f64_sub (Seconds i) (f64_mul (f64_of_int (sint h)) (Finite 3600)))
                  (Finite 60))))"

section \<open>Conversion to a duration\<close>

text \<open>
  \<open>time.Duration\<close> is an \<open>int64\<close> count of nanoseconds. \<open>mathhelper.Round\<close> belongs to
  another package (\<open>github.com/apaxa-io/mathhelper\<close>), whose source is not part of this
  repository: \<open>Duration\<close> takes it as the parameter \<open>Round\<close>, a function from
  \<open>float64\<close> to \<open>int64\<close>. The products and the sum are \<open>int64\<close> operations and wrap
  around.
\<close>

definition Duration :: "(f64 \<Rightarrow> 64 word) \<Rightarrow> Interval \<Rightarrow> 8 word \<Rightarrow> 32 word \<Rightarrow> 64 word" where
  "Duration Round i daysInMonth secondsInDay =
     (scast (Months i) * ucast daysInMonth + scast (Days i)) * ucast secondsInDay * 1000000000
       + Round (f64_mul (Seconds i) (Finite 1000000000))"

text \<open>
  Modelled from the spec: \<open>mathhelper.Round\<close>, which is not under src/. The spec says
  that the seconds are added at nanosecond resolution, rounded: the nearest integer,
  halves away from zero, as an \<open>int64\<close>. It instantiates the parameter of \<open>Duration\<close>
  in the concrete evaluations below.
\<close>

definition Round_nearest :: "f64 \<Rightarrow> 64 word" where
  "Round_nearest f =
     (case f of
        Finite q \<Rightarrow> word_of_int (if 0 \<le> q then \<lfloor>q + 1 / 2\<rfloor> else \<lceil>q - 1 / 2\<rceil>)
      | _ \<Rightarrow> 0)"

section \<open>The pattern of the textual form\<close>

text \<open>
  The regular expressions that the pattern \<open>re\<close> is built from, and how Go's
  \<open>regexp\<close> package matches them: leftmost-first, a greedy operator trying the longer
  alternative first and backtracking through the others. \<open>rx_match r s caps\<close> lists,
  in that order of preference, every way \<open>r\<close> can match a prefix of \<open>s\<close>: the rest of
  the input and the capture groups filled so far.
\<close>

datatype rx =
    Lit string
  | Cls string
  | ClsPlus string
  | AnyChar
  | Cat rx rx
  | Alt rx rx
  | Opt rx
  | Grp nat rx

text \<open>
  A Go string is a sequence of bytes, and the pattern's \<open>.\<close> consumes one UTF-8
  encoded code point: \<open>rune_width\<close> is the number of bytes of the code point that a
  non-empty string starts with, as \<open>utf8.DecodeRuneInString\<close> reads it (1 for a byte
  that starts no valid encoding).
\<close>

definition cont_byte :: "char \<Rightarrow> bool" where
  "cont_byte c = (128 \<le> (of_char c :: int) \<and> (of_char c :: int) \<le> 191)"

definition rune_width :: "string \<Rightarrow> nat" where
  "rune_width s =
     (case s of
        [] \<Rightarrow> 0
      | c # t \<Rightarrow>
          (let b = (of_char c :: int) in
           if 194 \<le> b \<and> b \<le> 223 then
             (case t of c1 # _ \<Rightarrow> if cont_byte c1 then 2 else 1 | _ \<Rightarrow> 1)
           else if 224 \<le> b \<and> b \<le> 239 then
             (case t of
                c1 # c2 # _ \<Rightarrow>
                  if (if b = 224 then 160 else 128) \<le> (of_char c1 :: int) \<and>
                     (of_char c1 :: int) \<le> (if b = 237 then 159 else 191) \<and> cont_byte c2
                  then 3 else 1
              | _ \<Rightarrow> 1)
           else if 240 \<le> b \<and> b \<le> 244 then
             (case t of
                c1 # c2 # c3 # _ \<Rightarrow>
                  if (if b = 240 then 144 else 128) \<le> (of_char c1 :: int) \<and>
                     (of_char c1 :: int) \<le> (if b = 244 then 143 else 191) \<and>
                     cont_byte c2 \<and> cont_byte c3
                  then 4 else 1
              | _ \<Rightarrow> 1)
           else 1))"

text \<open>\<open>[set]+\<close>, greedy: the rests of the input after one or more characters of the set,
  the longest run first.\<close>

fun cls_plus :: "string \<Rightarrow> string \<Rightarrow> string list" where
  "cls_plus cs [] = []"
| "cls_plus cs (c # s) = (if c \<in> set cs then cls_plus cs s @ [s] else [])"

fun rx_match :: "rx \<Rightarrow> string \<Rightarrow> string list \<Rightarrow> (string \<times> string list) list" where
  "rx_match (Lit l) s caps =
     (if take (length l) s = l then [(drop (length l) s, caps)] else [])"
| "rx_match (Cls cs) s caps =
     (case s of [] \<Rightarrow> [] | c # t \<Rightarrow> if c \<in> set cs then [(t, caps)] else [])"
| "rx_match (ClsPlus cs) s caps = map (\<lambda>t. (t, caps)) (cls_plus cs s)"
| "rx_match AnyChar s caps =
     (case s of
        [] \<Rightarrow> []
      | c # t \<Rightarrow> if c = CHR 0x0A then [] else [(drop (rune_width s) s, caps)])"
| "rx_match (Cat a b) s caps =
     concat (map (\<lambda>(t, caps'). rx_match b t caps') (rx_match a s caps))"
| "rx_match (Alt a b) s caps = rx_match a s caps @ rx_match b s caps"
| "rx_match (Opt a) s caps = rx_match a s caps @ [(s, caps)]"
| "rx_match (Grp n a) s caps =
     map (\<lambda>(t, caps'). (t, caps'[n := take (length s - length t) s])) (rx_match a s caps)"

text \<open>
  \<open>FindStringSubmatch\<close> for a pattern anchored by \<open>^\<close> and \<open>$\<close> with \<open>n\<close> capture
  groups: the preferred match that consumes the whole input, as the list of the whole
  match and the text of each group (empty for a group that took no part), or \<open>None\<close>
  (Go's \<open>nil\<close>).
\<close>

definition FindStringSubmatch :: "rx \<Rightarrow> nat \<Rightarrow> string \<Rightarrow> string list option" where
  "FindStringSubmatch r n s =
     (case filter (\<lambda>(t, caps). t = []) (rx_match r s (replicate (Suc n) [])) of
        [] \<Rightarrow> None
      | (t, caps) # _ \<Rightarrow> Some (caps[0 := s]))"

text \<open>
  \<^verbatim>\<open>^(?:([+-]?[0-9]+) year)? ?(?:([+-]?[0-9]+) mons)? ?(?:([+-]?[0-9]+) days)? ?(?:([+-])?([0-9]+):([0-9]+):([0-9]+(?:,|.[0-9]+)?))?$\<close>
\<close>

definition digits :: string where
  "digits = ''0123456789''"

definition signed_int_rx :: rx where
  "signed_int_rx = Cat (Opt (Cls ''+-'')) (ClsPlus digits)"

definition time_rx :: rx where
  "time_rx =
     Cat (Opt (Grp 4 (Cls ''+-'')))
    (Cat (Grp 5 (ClsPlus digits))
    (Cat (Lit '':'')
    (Cat (Grp 6 (ClsPlus digits))
    (Cat (Lit '':'')
         (Grp 7 (Cat (ClsPlus digits)
                     (Opt (Alt (Lit '','') (Cat AnyChar (ClsPlus digits))))))))))"

definition re :: rx where
  "re =
     Cat (Opt (Cat (Grp 1 signed_int_rx) (Lit '' year'')))
    (Cat (Opt (Lit '' ''))
    (Cat (Opt (Cat (Grp 2 signed_int_rx) (Lit '' mons'')))
    (Cat (Opt (Lit '' ''))
    (Cat (Opt (Cat (Grp 3 signed_int_rx) (Lit '' days'')))
    (Cat (Opt (Lit '' ''))
         (Opt time_rx))))))"

section \<open>Number conversions of package strconv\<close>

text \<open>
  The errors of \<open>Parse\<close>: its own (\<open>errors.New("Unable to parse interval from string " + s)\<close>)
  and the two kinds of \<open>strconv.NumError\<close>.
\<close>

datatype error = UnableToParse string | ErrSyntax | ErrRange

definition is_digit :: "char \<Rightarrow> bool" where
  "is_digit c = (c \<in> set digits)"

definition digit_val :: "char \<Rightarrow> int" where
  "digit_val c = of_char c - 48"

text \<open>
  The loop of \<open>strconv.ParseUint\<close> in base 10: a character that is no digit is a
  syntax error, a value above \<open>maxVal\<close> a range error, whichever comes first.
\<close>

fun ParseUint_loop :: "int \<Rightarrow> int \<Rightarrow> string \<Rightarrow> error + int" where
  "ParseUint_loop maxVal n [] = Inr n"
| "ParseUint_loop maxVal n (c # s) =
     (if \<not> is_digit c then Inl ErrSyntax
      else if maxVal < n * 10 + digit_val c then Inl ErrRange
      else ParseUint_loop maxVal (n * 10 + digit_val c) s)"

definition ParseUint :: "string \<Rightarrow> nat \<Rightarrow> error + int" where
  "ParseUint s bitSize = (if s = [] then Inl ErrSyntax else ParseUint_loop (2 ^ bitSize - 1) 0 s)"

text \<open>
  \<open>strconv.ParseInt(s, 10, bitSize)\<close>: an optional sign, then \<open>ParseUint\<close>; a value
  outside the signed range of \<open>bitSize\<close> bits is a range error.
\<close>

definition ParseInt :: "string \<Rightarrow> nat \<Rightarrow> error + int" where
  "ParseInt s bitSize =
     (if s = [] then Inl ErrSyntax
      else
        let neg = (hd s = CHR ''-'');
            s' = (if hd s = CHR ''+'' \<or> hd s = CHR ''-'' then tl s else s)
        in case ParseUint s' bitSize of
             Inl e \<Rightarrow> Inl e
           | Inr un \<Rightarrow>
               if \<not> neg \<and> 2 ^ (bitSize - 1) \<le> un then Inl ErrRange
               else if neg \<and> 2 ^ (bitSize - 1) < un then Inl ErrRange
               else Inr (if neg then - un else un))"

text \<open>
  \<open>strconv.ParseFloat(s, 64)\<close> on decimal notation: an optional sign, digits with at
  most one point, an optional exponent, underscores between digits; the result is the
  nearest binary64 value, and a range error when that is infinite. Hexadecimal
  mantissas and the spellings of infinity and NaN are not modelled (they are syntax
  errors here): \<open>Parse\<close> passes only strings that start with a digit and hold at most
  one code point that is no digit, and none of those is a hexadecimal float.
\<close>

fun scan_mantissa :: "bool \<Rightarrow> bool \<Rightarrow> int \<Rightarrow> int \<Rightarrow> string \<Rightarrow> bool \<times> int \<times> int \<times> string" where
  "scan_mantissa sawdot sawdigits m k [] = (sawdigits, m, k, [])"
| "scan_mantissa sawdot sawdigits m k (c # s) =
     (if c = CHR ''_'' then scan_mantissa sawdot sawdigits m k s
      else if c = CHR ''.'' then
        (if sawdot then (sawdigits, m, k, c # s) else scan_mantissa True sawdigits m k s)
      else if is_digit c then
        scan_mantissa sawdot True (m * 10 + digit_val c) (if sawdot then k + 1 else k) s
      else (sawdigits, m, k, c # s))"

fun scan_exponent :: "int \<Rightarrow> string \<Rightarrow> int \<times> string" where
  "scan_exponent e [] = (e, [])"
| "scan_exponent e (c # s) =
     (if c = CHR ''_'' then scan_exponent e s
      else if is_digit c then scan_exponent (if e < 10000 then e * 10 + digit_val c else e) s
      else (e, c # s))"

definition read_exponent :: "string \<Rightarrow> (int \<times> string) option" where
  "read_exponent s =
     (case s of
        [] \<Rightarrow> Some (0, [])
      | c # t \<Rightarrow>
          if c = CHR ''e'' \<or> c = CHR ''E'' then
            (let esign = (if t \<noteq> [] \<and> hd t = CHR ''-'' then - 1 else 1 :: int);
                 u = (if t \<noteq> [] \<and> (hd t = CHR ''+'' \<or> hd t = CHR ''-'') then tl t else t)
             in if u = [] \<or> \<not> is_digit (hd u) then None
                else (let (e, v) = scan_exponent 0 u in Some (esign * e, v)))
          else Some (0, s))"

fun underscoreOK_loop :: "char \<Rightarrow> string \<Rightarrow> bool" where
  "underscoreOK_loop saw [] = (saw \<noteq> CHR ''_'')"
| "underscoreOK_loop saw (c # s) =
     (if is_digit c then underscoreOK_loop (CHR ''0'') s
      else if c = CHR ''_'' then (if saw \<noteq> CHR ''0'' then False else underscoreOK_loop (CHR ''_'') s)
      else if saw = CHR ''_'' then False
      else underscoreOK_loop (CHR ''!'') s)"

definition ParseFloat :: "string \<Rightarrow> error + f64" where
  "ParseFloat s =
     (let neg = (s \<noteq> [] \<and> hd s = CHR ''-'');
          s1 = (if s \<noteq> [] \<and> (hd s = CHR ''+'' \<or> hd s = CHR ''-'') then tl s else s);
          (sawdigits, m, k, s2) = scan_mantissa False False 0 0 s1
      in if \<not> sawdigits then Inl ErrSyntax
         else
           case read_exponent s2 of
             None \<Rightarrow> Inl ErrSyntax
           | Some (e, s3) \<Rightarrow>
               if s3 \<noteq> [] \<or> \<not> underscoreOK_loop (CHR ''^'') s1 then Inl ErrSyntax
               else
                 (case f64_round ((if neg then - 1 else 1) * of_int m * (10 powi (e - k))) of
                    Finite q \<Rightarrow> Inr (Finite q)
                  | _ \<Rightarrow> Inl ErrRange))"

section \<open>Parse\<close>

text \<open>
  \<open>func Parse(s string) (i Interval, err error)\<close>: the results are named, so every
  \<open>return\<close> hands back the Interval as filled so far together with the error.
  \<open>and_then\<close> is that early return: a step that failed ends the function.
\<close>

definition zero_Interval :: Interval where
  "zero_Interval = \<lparr>Months = 0, Days = 0, Seconds = Finite 0\<rparr>"

definition and_then ::
  "Interval \<times> error option \<Rightarrow> (Interval \<Rightarrow> Interval \<times> error option) \<Rightarrow> Interval \<times> error option" where
  "and_then r f = (case r of (i, None) \<Rightarrow> f i | (i, Some e) \<Rightarrow> (i, Some e))"

definition parse_years :: "string list \<Rightarrow> Interval \<Rightarrow> Interval \<times> error option" where
  "parse_years parts i =
     (if parts ! 1 \<noteq> [] then
        (case ParseInt (parts ! 1) 32 of
           Inl e \<Rightarrow> (i, Some e)
         | Inr ti \<Rightarrow> (i\<lparr>Months := word_of_int ti * 12\<rparr>, None))
      else (i, None))"

definition parse_months :: "string list \<Rightarrow> Interval \<Rightarrow> Interval \<times> error option" where
  "parse_months parts i =
     (if parts ! 2 \<noteq> [] then
        (case ParseInt (parts ! 2) 32 of
           Inl e \<Rightarrow> (i, Some e)
         | Inr ti \<Rightarrow> (i\<lparr>Months := Months i + word_of_int ti\<rparr>, None))
      else (i, None))"

definition parse_days :: "string list \<Rightarrow> Interval \<Rightarrow> Interval \<times> error option" where
  "parse_days parts i =
     (if parts ! 3 \<noteq> [] then
        (case ParseInt (parts ! 3) 32 of
           Inl e \<Rightarrow> (i, Some e)
         | Inr ti \<Rightarrow> (i\<lparr>Days := word_of_int ti\<rparr>, None))
      else (i, None))"

definition parse_hours :: "string list \<Rightarrow> Interval \<Rightarrow> Interval \<times> error option" where
  "parse_hours parts i =
     (if parts ! 5 \<noteq> [] then
        (case ParseInt (parts ! 5) 64 of
           Inl e \<Rightarrow> (i, Some e)
         | Inr ti \<Rightarrow> (i\<lparr>Seconds := f64_mul (f64_of_int ti) (Finite 3600)\<rparr>, None))
      else (i, None))"

definition parse_minutes :: "string list \<Rightarrow> Interval \<Rightarrow> Interval \<times> error option" where
  "parse_minutes parts i =
     (if parts ! 6 \<noteq> [] then
        (case ParseInt (parts ! 6) 64 of
           Inl e \<Rightarrow> (i, Some e)
         | Inr ti \<Rightarrow>
             (i\<lparr>Seconds := f64_add (Seconds i) (f64_mul (f64_of_int ti) (Finite 60))\<rparr>, None))
      else (i, None))"

definition parse_seconds :: "string list \<Rightarrow> Interval \<Rightarrow> Interval \<times> error option" where
  "parse_seconds parts i =
     (if parts ! 7 \<noteq> [] then
        (case ParseFloat (parts ! 7) of
           Inl e \<Rightarrow> (i, Some e)
         | Inr tf \<Rightarrow> (i\<lparr>Seconds := f64_add (Seconds i) tf\<rparr>, None))
      else (i, None))"

definition fix_sign :: "string list \<Rightarrow> Interval \<Rightarrow> Interval \<times> error option" where
  "fix_sign parts i =
     (if parts ! 4 = ''-'' then (i\<lparr>Seconds := f64_mul (Seconds i) (Finite (- 1))\<rparr>, None)
      else (i, None))"

definition Parse :: "string \<Rightarrow> Interval \<times> error option" where
  "Parse s =
     (case FindStringSubmatch re 7 s of
        None \<Rightarrow> (zero_Interval, Some (UnableToParse s))
      | Some parts \<Rightarrow>
          if length parts \<noteq> 8 then (zero_Interval, Some (UnableToParse s))
          else
            and_then (parse_years parts zero_Interval) (\<lambda>i.
            and_then (parse_months parts i) (\<lambda>i.
            and_then (parse_days parts i) (\<lambda>i.
            and_then (parse_hours parts i) (\<lambda>i.
            and_then (parse_minutes parts i) (\<lambda>i.
            and_then (parse_seconds parts i) (\<lambda>i.
            fix_sign parts i)))))))"

text \<open>
  How \<open>Parse\<close> reads one capture group: an empty group is skipped (\<open>None\<close>), any other
  text is converted, and the conversion may fail. \<open>read_int\<close> is
  \<open>if parts[k] != "" { ti, err = strconv.ParseInt(parts[k], 10, bitSize) }\<close> and
  \<open>read_float\<close> the same with \<open>strconv.ParseFloat(parts[7], 64)\<close>.
\<close>

definition read_int :: "string \<Rightarrow> nat \<Rightarrow> error + int option" where
  "read_int p bitSize =
     (if p = [] then Inr None
      else (case ParseInt p bitSize of Inl e \<Rightarrow> Inl e | Inr n \<Rightarrow> Inr (Some n)))"

definition read_float :: "string \<Rightarrow> error + f64 option" where
  "read_float p =
     (if p = [] then Inr None
      else (case ParseFloat p of Inl e \<Rightarrow> Inl e | Inr f \<Rightarrow> Inr (Some f)))"

text \<open>
  What the assignments of \<open>Parse\<close> leave in a field, given the numbers read:
  \<open>i.Months = int32(ti) * 12\<close> for the years and \<open>i.Months += int32(ti)\<close> for the months
  (\<open>i.Days = int32(ti)\<close> for the days), \<open>i.Seconds = float64(ti) * 3600\<close> for the hours,
  \<open>i.Seconds += float64(ti) * 60\<close> for the minutes and \<open>i.Seconds += tf\<close> for the
  seconds; a group that is absent leaves the field as it is.
\<close>

definition years_months :: "int option \<Rightarrow> int32" where
  "years_months y = (case y of None \<Rightarrow> 0 | Some n \<Rightarrow> word_of_int n * 12)"

definition int32_field :: "int option \<Rightarrow> int32" where
  "int32_field v = (case v of None \<Rightarrow> 0 | Some n \<Rightarrow> word_of_int n)"

definition hours_seconds :: "int option \<Rightarrow> f64" where
  "hours_seconds h = (case h of None \<Rightarrow> Finite 0 | Some n \<Rightarrow> f64_mul (f64_of_int n) (Finite 3600))"

definition minutes_seconds :: "f64 \<Rightarrow> int option \<Rightarrow> f64" where
  "minutes_seconds c mi =
     (case mi of None \<Rightarrow> c | Some n \<Rightarrow> f64_add c (f64_mul (f64_of_int n) (Finite 60)))"

definition seconds_seconds :: "f64 \<Rightarrow> f64 option \<Rightarrow> f64" where
  "seconds_seconds c sec = (case sec of None \<Rightarrow> c | Some tf \<Rightarrow> f64_add c tf)"

text \<open>The outcomes of a step of \<open>Parse\<close> after the match: success, or an error of \<open>strconv\<close>.\<close>

definition num_error :: "Interval \<times> error option \<Rightarrow> bool" where
  "num_error r = (snd r = None \<or> snd r = Some ErrSyntax \<or> snd r = Some ErrRange)"

section \<open>String\<close>

text \<open>
  \<open>strconv.FormatInt(n, 10)\<close>: the decimal digits of \<open>n\<close>, after a minus sign when
  \<open>n\<close> is negative. \<open>dec_digits\<close> is for \<open>n \<ge> 0\<close>.
\<close>

function dec_digits :: "int \<Rightarrow> string" where
  "dec_digits n =
     (if n < 10 then [char_of (48 + n)]
      else dec_digits (n div 10) @ [char_of (48 + n mod 10)])"
  by pat_completeness auto
termination
  by (relation "measure nat") auto

definition FormatInt :: "int \<Rightarrow> string" where
  "FormatInt n = (if n < 0 then CHR ''-'' # dec_digits (- n) else dec_digits n)"

text \<open>
  The verb \<open>%02d\<close> of \<open>fmt.Sprintf\<close>: at least two characters, padded with zeros; the
  minus sign of a negative number counts as one of them.
\<close>

definition Sprintf_02d :: "int \<Rightarrow> string" where
  "Sprintf_02d n =
     (if n < 0 then CHR ''-'' # dec_digits (- n)
      else if n < 10 then CHR ''0'' # dec_digits n
      else dec_digits n)"

text \<open>
  \<open>math.Remainder(x, y)\<close>, the IEEE-754 remainder: \<open>x - n * y\<close> for the integer \<open>n\<close>
  nearest to the exact quotient \<open>x / y\<close>, the even one in a tie. The result is exact
  and lies between \<open>-y/2\<close> and \<open>y/2\<close>.
\<close>

fun f64_remainder :: "f64 \<Rightarrow> f64 \<Rightarrow> f64" where
  "f64_remainder NaN y = NaN"
| "f64_remainder x NaN = NaN"
| "f64_remainder PInf y = NaN"
| "f64_remainder NInf y = NaN"
| "f64_remainder x PInf = x"
| "f64_remainder x NInf = x"
| "f64_remainder (Finite x) (Finite y) =
     (if y = 0 then NaN else Finite (x - of_int (round_half_even (x / y)) * y))"

text \<open>
  \<open>strconv.FormatFloat(f, 'f', -1, 64)\<close>: the fewest significant decimal digits that
  \<open>ParseFloat\<close> reads back as \<open>f\<close> (of the two neighbours with that many digits the
  nearer one when both do), written without an exponent. \<open>ilog10 a\<close> is the decimal
  exponent of a positive binary64 value (\<open>10^(ilog10 a) \<le> a < 10^(ilog10 a + 1)\<close>),
  found from the binary exponent; \<open>digits_at a n\<close> is the decimal \<open>d * 10^e\<close> with
  \<open>n\<close> significant digits that reads back as \<open>a\<close>, if there is one. Seventeen digits
  identify every binary64 value.
\<close>

definition ilog10 :: "rat \<Rightarrow> int" where
  "ilog10 a =
     (let p = \<lfloor>of_int (ilog2 a) * 30103 / 100000 :: rat\<rfloor>
      in if a < 10 powi p then p - 1 else if 10 powi (p + 1) \<le> a then p + 1 else p)"

definition digits_at :: "rat \<Rightarrow> int \<Rightarrow> (int \<times> int) option" where
  "digits_at a n =
     (let e = ilog10 a - n + 1;
          u = 10 powi e;
          lo = \<lfloor>a / u\<rfloor>;
          hi = lo + 1;
          oklo = (f64_round (of_int lo * u) = Finite a);
          okhi = (f64_round (of_int hi * u) = Finite a)
      in if oklo \<and> okhi then
           Some (if a - of_int lo * u < of_int hi * u - a then lo
                 else if of_int hi * u - a < a - of_int lo * u then hi
                 else if even lo then lo else hi, e)
         else if oklo then Some (lo, e)
         else if okhi then Some (hi, e)
         else None)"

fun shortest_digits :: "rat \<Rightarrow> int list \<Rightarrow> int \<times> int" where
  "shortest_digits a [] = (0, 0)"
| "shortest_digits a (n # ns) =
     (case digits_at a n of Some r \<Rightarrow> r | None \<Rightarrow> shortest_digits a ns)"

text \<open>\<open>d * 10^e\<close> in positional notation, for \<open>d \<ge> 0\<close>: no exponent, no trailing zeros
  after the point, no point without a fraction.\<close>

definition positional :: "int \<Rightarrow> int \<Rightarrow> string" where
  "positional d e =
     (if 0 \<le> e then dec_digits d @ replicate (nat e) (CHR ''0'')
      else
        let frac = dec_digits (d mod 10 ^ nat (- e));
            frac' = rev (dropWhile (\<lambda>c. c = CHR ''0'')
                      (rev (replicate (nat (- e) - length frac) (CHR ''0'') @ frac)))
        in dec_digits (d div 10 ^ nat (- e)) @ (if frac' = [] then [] else CHR ''.'' # frac'))"

definition FormatFloat :: "f64 \<Rightarrow> string" where
  "FormatFloat f =
     (case f of
        NaN \<Rightarrow> ''NaN''
      | PInf \<Rightarrow> ''+Inf''
      | NInf \<Rightarrow> ''-Inf''
      | Finite q \<Rightarrow>
          if q = 0 then ''0''
          else
            (let (d, e) = shortest_digits \<bar>q\<bar> [1..17]
             in (if q < 0 then ''-'' else []) @ positional d e))"

text \<open>
  \<open>func (i Interval) String() string\<close>. The hours and minutes come from conversions
  of a \<open>float64\<close> to \<open>int32\<close> and \<open>int8\<close>; where such a conversion is out of range
  and the time block is printed, the text depends on the implementation: \<open>None\<close>.
\<close>

definition String :: "Interval \<Rightarrow> string option" where
  "String i0 =
     (if Months i0 = 0 \<and> Days i0 = 0 \<and> f64_eq (Seconds i0) (Finite 0) then Some ''00:00:00''
      else
        let y = NormalYears i0;
            mon = NormalMonths i0;
            negativeTime = f64_lt (Seconds i0) (Finite 0);
            i = (if negativeTime then i0\<lparr>Seconds := f64_neg (Seconds i0)\<rparr> else i0);
            h = NormalHours i;
            m = NormalMinutes i;
            s = f64_remainder (Seconds i) (Finite 60);
            str = (if y \<noteq> 0 then FormatInt (sint y) @ '' year '' else []) @
                  (if mon \<noteq> 0 then FormatInt (sint mon) @ '' mons '' else []) @
                  (if Days i \<noteq> 0 then FormatInt (sint (Days i)) @ '' days '' else [])
        in if \<not> f64_eq (Seconds i) (Finite 0) then
             (case (h, m) of
                (Some hh, Some mm) \<Rightarrow>
                  Some (str @ (if negativeTime then ''-'' else []) @
                        Sprintf_02d (sint hh) @ '':'' @ Sprintf_02d (sint mm) @ '':'' @
                        (if f64_lt s (Finite 10) then ''0'' @ FormatFloat s else FormatFloat s))
              | _ \<Rightarrow> None)
           else Some (butlast str))"

section \<open>Properties of the ordering\<close>

lemma f64_le_ge: "f64_le x y = f64_ge y x"
  by (cases x; cases y) simp_all

lemma f64_lt_not_ge: "f64_lt x y \<Longrightarrow> \<not> f64_ge x y"
  by (cases x; cases y) simp_all

lemma f64_lt_not_le: "f64_lt y x \<Longrightarrow> \<not> f64_le x y"
  by (cases x; cases y) simp_all

lemma LessOrEqual_GreaterOrEqual: "LessOrEqual a b = GreaterOrEqual b a"
  by (simp add: LessOrEqual_def GreaterOrEqual_def int32_le_def int32_ge_def f64_le_ge)

text \<open>
  C4. \<open>Comparable(a,b)\<close> is \<open>LessOrEqual(a,b) OR GreaterOrEqual(a,b)\<close>. It is false
  whenever the fields pull in opposite directions, that is whenever one field of \<open>a\<close>
  is strictly below and another field strictly above the corresponding field of \<open>b\<close>.
  In particular it is false (a plain boolean result: the model is a total function, as
  the Go comparisons cannot panic) for \<open>a = {-2147483648, 2147483647, 0}\<close> and
  \<open>b = {2147483647, -2147483648, 0}\<close>.
\<close>

theorem Comparable_partial_order:
  "Comparable a b = (LessOrEqual a b \<or> GreaterOrEqual a b) \<and>
   (((int32_lt (Months a) (Months b) \<or> int32_lt (Days a) (Days b) \<or>
        f64_lt (Seconds a) (Seconds b)) \<and>
     (int32_lt (Months b) (Months a) \<or> int32_lt (Days b) (Days a) \<or>
        f64_lt (Seconds b) (Seconds a)))
      \<longrightarrow> Comparable a b = False) \<and>
   Comparable \<lparr>Months = - 2147483648, Days = 2147483647, Seconds = Finite 0\<rparr>
              \<lparr>Months = 2147483647, Days = - 2147483648, Seconds = Finite 0\<rparr> = False"
proof (intro conjI impI)
  show "Comparable a b = (LessOrEqual a b \<or> GreaterOrEqual a b)"
    by (simp add: Comparable_def)
next
  assume h: "(int32_lt (Months a) (Months b) \<or> int32_lt (Days a) (Days b) \<or>
        f64_lt (Seconds a) (Seconds b)) \<and>
     (int32_lt (Months b) (Months a) \<or> int32_lt (Days b) (Days a) \<or>
        f64_lt (Seconds b) (Seconds a))"
  from h have lo: "\<not> GreaterOrEqual a b"
    by (auto simp: GreaterOrEqual_def int32_ge_def int32_lt_def dest: f64_lt_not_ge)
  from h have hi: "\<not> LessOrEqual a b"
    by (auto simp: LessOrEqual_def int32_le_def int32_lt_def dest: f64_lt_not_le)
  from lo hi show "Comparable a b = False"
    by (simp add: Comparable_def)
next
  show "Comparable \<lparr>Months = - 2147483648, Days = 2147483647, Seconds = Finite 0\<rparr>
              \<lparr>Months = 2147483647, Days = - 2147483648, Seconds = Finite 0\<rparr> = False"
    by (simp add: Comparable_def LessOrEqual_def GreaterOrEqual_def int32_le_def int32_ge_def)
qed

theorem Comparable_partial_order_witness:
  "int32_lt (Days \<lparr>Months = 1, Days = 0, Seconds = Finite 86400\<rparr>)
            (Days \<lparr>Months = 1, Days = 1, Seconds = Finite 0\<rparr>) \<and>
   f64_lt (Seconds \<lparr>Months = 1, Days = 1, Seconds = Finite 0\<rparr>)
          (Seconds \<lparr>Months = 1, Days = 0, Seconds = Finite 86400\<rparr>) \<and>
   Comparable \<lparr>Months = 1, Days = 0, Seconds = Finite 86400\<rparr>
              \<lparr>Months = 1, Days = 1, Seconds = Finite 0\<rparr> = False"
proof -
  have lt: "int32_lt (Days \<lparr>Months = 1, Days = 0, Seconds = Finite 86400\<rparr>)
            (Days \<lparr>Months = 1, Days = 1, Seconds = Finite 0\<rparr>)"
    by (simp add: int32_lt_def)
  have gt: "f64_lt (Seconds \<lparr>Months = 1, Days = 1, Seconds = Finite 0\<rparr>)
          (Seconds \<lparr>Months = 1, Days = 0, Seconds = Finite 86400\<rparr>)"
    by simp
  from lt gt Comparable_partial_order
    [of "\<lparr>Months = 1, Days = 0, Seconds = Finite 86400\<rparr>"
        "\<lparr>Months = 1, Days = 1, Seconds = Finite 0\<rparr>"]
  have "Comparable \<lparr>Months = 1, Days = 0, Seconds = Finite 86400\<rparr>
              \<lparr>Months = 1, Days = 1, Seconds = Finite 0\<rparr> = False"
    by blast
  with lt gt show ?thesis by blast
qed

text \<open>
  C10. Comparability is symmetric: \<open>Comparable(a,b)\<close> and \<open>Comparable(b,a)\<close> are the
  same boolean, for all Intervals (NaN and infinite seconds included).
\<close>

theorem Comparable_symmetric: "Comparable a b = Comparable b a"
  by (auto simp: Comparable_def LessOrEqual_GreaterOrEqual)

section \<open>Properties of rounding and conversion\<close>

lemma pow2_pos: "0 < pow2 k"
  by (simp add: pow2_def)

lemma round_half_even_nonneg: "0 \<le> a \<Longrightarrow> 0 \<le> round_half_even a"
  by (auto simp: round_half_even_def Let_def)

lemma f64_round_nonneg: "0 \<le> x \<Longrightarrow> f64_round x = Finite q \<Longrightarrow> 0 \<le> q"
  using pow2_pos [of "ulp_exp \<bar>x\<bar>"] round_half_even_nonneg [of "\<bar>x\<bar> / pow2 (ulp_exp \<bar>x\<bar>)"]
  by (auto simp: f64_round_def Let_def sgn_if split: if_splits)

lemma f64_round_nonpos: "x \<le> 0 \<Longrightarrow> f64_round x = Finite q \<Longrightarrow> q \<le> 0"
proof -
  assume x: "x \<le> 0" and r: "f64_round x = Finite q"
  show ?thesis
  proof (cases "x = 0")
    case True
    with r show ?thesis by (simp add: f64_round_def)
  next
    case False
    define m where "m = round_half_even (\<bar>x\<bar> / pow2 (ulp_exp \<bar>x\<bar>))"
    have m0: "0 \<le> m"
      unfolding m_def using pow2_pos [of "ulp_exp \<bar>x\<bar>"]
      by (intro round_half_even_nonneg) simp
    have "0 \<le> rat_of_int m * pow2 (ulp_exp \<bar>x\<bar>)"
      using m0 pow2_pos [of "ulp_exp \<bar>x\<bar>"] by simp
    moreover have "q = - (rat_of_int m * pow2 (ulp_exp \<bar>x\<bar>))"
      using r False x by (simp add: f64_round_def Let_def m_def sgn_if split: if_splits)
    ultimately show ?thesis by simp
  qed
qed

lemma sint_int32_of_int:
  "- (2 ^ 31) \<le> n \<Longrightarrow> n < 2 ^ 31 \<Longrightarrow> sint (word_of_int n :: 32 word) = n"
  by (simp add: sint_sbintrunc' signed_take_bit_int_eq_self)

lemma sint_int8_of_int:
  "- 128 \<le> n \<Longrightarrow> n < 128 \<Longrightarrow> sint (word_of_int n :: 8 word) = n"
  by (simp add: sint_sbintrunc' signed_take_bit_int_eq_self)

lemma sint_int64_of_int:
  "- (2 ^ 63) \<le> n \<Longrightarrow> n < 2 ^ 63 \<Longrightarrow> sint (word_of_int n :: 64 word) = n"
  by (simp add: sint_sbintrunc' signed_take_bit_int_eq_self)

section \<open>Add and Sub\<close>

text \<open>
  C5, as stated: \<open>Sub(Add(a,b), b) == a\<close> for all Intervals, barring overflow of months
  or days. It fails on the seconds: \<open>1 + 2^53\<close> is not a binary64 value and rounds to
  \<open>2^53\<close>, so subtracting \<open>2^53\<close> again leaves 0, not 1. Both operands are binary64
  values, and months and days are 0.
\<close>

theorem Sub_Add_counterexample:
  "is_f64 1 \<and> is_f64 9007199254740992 \<and>
   \<not> Equal (Sub (Add \<lparr>Months = 0, Days = 0, Seconds = Finite 1\<rparr>
                       \<lparr>Months = 0, Days = 0, Seconds = Finite 9007199254740992\<rparr>)
                  \<lparr>Months = 0, Days = 0, Seconds = Finite 9007199254740992\<rparr>)
             \<lparr>Months = 0, Days = 0, Seconds = Finite 1\<rparr>"
  by code_simp

text \<open>
  C5, amended. For all Intervals \<open>a\<close> and \<open>b\<close>, \<open>Sub(Add(a,b), b)\<close> has the months
  and the days of \<open>a\<close> (also when the 32-bit sum wraps around: the subtraction wraps
  back), and it is \<open>a\<close> itself whenever the seconds are finite and their sum is exact,
  that is \<open>a.Seconds\<close> is a binary64 value and so is the exact sum
  \<open>a.Seconds + b.Seconds\<close>.
\<close>

theorem Sub_Add_inverse:
  "Months (Sub (Add a b) b) = Months a \<and> Days (Sub (Add a b) b) = Days a \<and>
   (Seconds a = Finite x \<and> Seconds b = Finite y \<and> is_f64 x \<and> is_f64 (x + y)
      \<longrightarrow> Sub (Add a b) b = a \<and> Equal (Sub (Add a b) b) a)"
  by (auto simp: Add_def Sub_def Equal_def is_f64_def)

theorem Sub_Add_inverse_witness:
  "Seconds \<lparr>Months = - 14, Days = 3, Seconds = Finite (- 14706)\<rparr> = Finite (- 14706) \<and>
   Seconds \<lparr>Months = 1, Days = 2, Seconds = Finite 3\<rparr> = Finite 3 \<and>
   is_f64 (- 14706) \<and> is_f64 (- 14706 + 3) \<and>
   Equal (Sub (Add \<lparr>Months = - 14, Days = 3, Seconds = Finite (- 14706)\<rparr>
                   \<lparr>Months = 1, Days = 2, Seconds = Finite 3\<rparr>)
              \<lparr>Months = 1, Days = 2, Seconds = Finite 3\<rparr>)
         \<lparr>Months = - 14, Days = 3, Seconds = Finite (- 14706)\<rparr>"
proof -
  have s1: "Seconds \<lparr>Months = - 14, Days = 3, Seconds = Finite (- 14706)\<rparr> = Finite (- 14706)"
    by simp
  have s2: "Seconds \<lparr>Months = 1, Days = 2, Seconds = Finite 3\<rparr> = Finite 3"
    by simp
  have a: "is_f64 (- 14706)" by code_simp
  have b: "is_f64 (- 14706 + 3)" by code_simp
  from s1 s2 a b Sub_Add_inverse [of "\<lparr>Months = - 14, Days = 3, Seconds = Finite (- 14706)\<rparr>"
      "\<lparr>Months = 1, Days = 2, Seconds = Finite 3\<rparr>" "- 14706" 3]
  have "Equal (Sub (Add \<lparr>Months = - 14, Days = 3, Seconds = Finite (- 14706)\<rparr>
                   \<lparr>Months = 1, Days = 2, Seconds = Finite 3\<rparr>)
              \<lparr>Months = 1, Days = 2, Seconds = Finite 3\<rparr>)
         \<lparr>Months = - 14, Days = 3, Seconds = Finite (- 14706)\<rparr>"
    by blast
  with s1 s2 a b show ?thesis by blast
qed

section \<open>NormalHours and NormalMinutes\<close>

text \<open>
  C6, as stated: \<open>NormalHours(i) = floor(i.Seconds / 3600)\<close>, negative seconds
  included. For \<open>i.Seconds = -225\<close> the quotient is \<open>-1/16\<close>, whose floor is \<open>-1\<close>;
  the conversion \<open>int32(...)\<close> truncates towards zero and gives 0.
\<close>

theorem NormalHours_floor_counterexample:
  "map_option sint (NormalHours \<lparr>Months = 0, Days = 0, Seconds = Finite (- 225)\<rparr>)
     \<noteq> Some \<lfloor>(- 225 :: rat) / 3600\<rfloor>"
  by code_simp

text \<open>
  C6, amended. For an Interval with finite seconds \<open>s\<close>, let \<open>q\<close> be the \<open>float64\<close>
  quotient \<open>s / 3600\<close>. When \<open>q\<close> truncated towards zero fits \<open>int32\<close>,
  \<open>NormalHours(i)\<close> is that truncated value: the floor of \<open>q\<close> when \<open>s \<ge> 0\<close>, its
  ceiling when \<open>s < 0\<close>. \<open>NormalMinutes(i)\<close> is the \<open>float64\<close> value
  \<open>(s - NormalHours(i) * 3600) / 60\<close> truncated towards zero, when that fits \<open>int8\<close>.
\<close>

theorem NormalHours_truncates:
  assumes s: "Seconds i = Finite s"
    and q: "f64_div (Finite s) (Finite 3600) = Finite q"
    and lo: "- (2 ^ 31) \<le> truncate_rat q" and hi: "truncate_rat q < 2 ^ 31"
  shows "map_option sint (NormalHours i) = Some (truncate_rat q) \<and>
     (0 \<le> s \<longrightarrow> truncate_rat q = \<lfloor>q\<rfloor>) \<and>
     (s < 0 \<longrightarrow> truncate_rat q = \<lceil>q\<rceil>) \<and>
     (\<forall>r. f64_div (f64_sub (Finite s) (f64_mul (f64_of_int (truncate_rat q)) (Finite 3600)))
              (Finite 60) = Finite r \<and> - 128 \<le> truncate_rat r \<and> truncate_rat r < 128
          \<longrightarrow> map_option sint (NormalMinutes i) = Some (truncate_rat r))"
proof -
  have h: "NormalHours i = Some (word_of_int (truncate_rat q))"
    using s q lo hi by (simp add: NormalHours_def f64_to_int_def Let_def)
  have sh: "sint (word_of_int (truncate_rat q) :: 32 word) = truncate_rat q"
    using lo hi by (rule sint_int32_of_int)
  have r: "f64_round (s / 3600) = Finite q"
    using q by simp
  have pos: "0 \<le> s \<Longrightarrow> truncate_rat q = \<lfloor>q\<rfloor>"
    by (simp add: truncate_rat_def f64_round_nonneg [OF _ r])
  have neg: "s < 0 \<Longrightarrow> truncate_rat q = \<lceil>q\<rceil>"
  proof -
    assume "s < 0"
    then have "q \<le> 0" using f64_round_nonpos [OF _ r] by simp
    then show ?thesis by (cases "q = 0") (simp_all add: truncate_rat_def)
  qed
  have m: "map_option sint (NormalMinutes i) = Some (truncate_rat r)"
    if "f64_div (f64_sub (Finite s) (f64_mul (f64_of_int (truncate_rat q)) (Finite 3600)))
              (Finite 60) = Finite r" "- 128 \<le> truncate_rat r" "truncate_rat r < 128" for r
    using that s h sh by (simp add: NormalMinutes_def f64_to_int_def Let_def sint_int8_of_int)
  from h sh pos neg m show ?thesis by auto
qed

theorem NormalHours_truncates_witness:
  "Seconds \<lparr>Months = 0, Days = 0, Seconds = Finite (- 225)\<rparr> = Finite (- 225) \<and>
   f64_div (Finite (- 225)) (Finite 3600) = Finite (- 1 / 16) \<and>
   - (2 ^ 31) \<le> truncate_rat (- 1 / 16) \<and> truncate_rat (- 1 / 16) < 2 ^ 31 \<and>
   (- 225 :: rat) < 0 \<and>
   f64_div (f64_sub (Finite (- 225)) (f64_mul (f64_of_int (truncate_rat (- 1 / 16))) (Finite 3600)))
      (Finite 60) = Finite (- 15 / 4) \<and>
   - 128 \<le> truncate_rat (- 15 / 4) \<and> truncate_rat (- 15 / 4) < 128 \<and>
   map_option sint (NormalHours \<lparr>Months = 0, Days = 0, Seconds = Finite (- 225)\<rparr>) = Some 0 \<and>
   truncate_rat (- 1 / 16) = \<lceil>(- 1 / 16 :: rat)\<rceil> \<and>
   map_option sint (NormalMinutes \<lparr>Months = 0, Days = 0, Seconds = Finite (- 225)\<rparr>) = Some (- 3) \<and>
   Seconds \<lparr>Months = 0, Days = 0, Seconds = Finite 14706\<rparr> = Finite 14706 \<and>
   f64_div (Finite 14706) (Finite 3600) = Finite (4599301119452119 / 1125899906842624) \<and>
   (0 :: rat) \<le> 14706 \<and>
   map_option sint (NormalHours \<lparr>Months = 0, Days = 0, Seconds = Finite 14706\<rparr>) = Some 4 \<and>
   truncate_rat (4599301119452119 / 1125899906842624)
     = \<lfloor>(4599301119452119 / 1125899906842624 :: rat)\<rfloor>"
proof -
  let ?i = "\<lparr>Months = 0, Days = 0, Seconds = Finite (- 225)\<rparr>"
  let ?j = "\<lparr>Months = 0, Days = 0, Seconds = Finite 14706\<rparr>"
  have s: "Seconds ?i = Finite (- 225)" by simp
  have q: "f64_div (Finite (- 225)) (Finite 3600) = Finite (- 1 / 16)" by code_simp
  have t: "truncate_rat (- 1 / 16) = 0" by code_simp
  have lo: "- (2 ^ 31) \<le> truncate_rat (- 1 / 16)" unfolding t by simp
  have hi: "truncate_rat (- 1 / 16) < 2 ^ 31" unfolding t by simp
  have n: "(- 225 :: rat) < 0" by simp
  have r: "f64_div (f64_sub (Finite (- 225)) (f64_mul (f64_of_int (truncate_rat (- 1 / 16))) (Finite 3600)))
      (Finite 60) = Finite (- 15 / 4)" by code_simp
  have u: "truncate_rat (- 15 / 4) = - 3" by code_simp
  have rlo: "- 128 \<le> truncate_rat (- 15 / 4)" unfolding u by simp
  have rhi: "truncate_rat (- 15 / 4) < 128" unfolding u by simp
  note A = NormalHours_truncates [OF s q lo hi]
  from A have "map_option sint (NormalHours ?i) = Some (truncate_rat (- 1 / 16))" by blast
  then have h: "map_option sint (NormalHours ?i) = Some 0" by (simp only: t)
  from A n have c: "truncate_rat (- 1 / 16) = \<lceil>(- 1 / 16 :: rat)\<rceil>" by blast
  from A r rlo rhi have "map_option sint (NormalMinutes ?i) = Some (truncate_rat (- 15 / 4))"
    by blast
  then have m: "map_option sint (NormalMinutes ?i) = Some (- 3)" by (simp only: u)
  have s': "Seconds ?j = Finite 14706" by simp
  have q': "f64_div (Finite 14706) (Finite 3600) = Finite (4599301119452119 / 1125899906842624)"
    by code_simp
  have t': "truncate_rat (4599301119452119 / 1125899906842624) = 4" by code_simp
  have lo': "- (2 ^ 31) \<le> truncate_rat (4599301119452119 / 1125899906842624)" unfolding t' by simp
  have hi': "truncate_rat (4599301119452119 / 1125899906842624) < 2 ^ 31" unfolding t' by simp
  have p: "(0 :: rat) \<le> 14706" by simp
  note B = NormalHours_truncates [OF s' q' lo' hi']
  from B have "map_option sint (NormalHours ?j)
      = Some (truncate_rat (4599301119452119 / 1125899906842624))" by blast
  then have h': "map_option sint (NormalHours ?j) = Some 4" by (simp only: t')
  from B p have f: "truncate_rat (4599301119452119 / 1125899906842624)
     = \<lfloor>(4599301119452119 / 1125899906842624 :: rat)\<rfloor>" by blast
  from s q lo hi n r rlo rhi h c m s' q' p h' f show ?thesis by blast
qed

section \<open>Duration\<close>

lemma Duration_word:
  "Duration Round i dpm spd =
     word_of_int ((sint (Months i) * uint dpm + sint (Days i)) * uint spd * 1000000000
        + sint (Round (f64_mul (Seconds i) (Finite 1000000000))))"
proof -
  have "Round (f64_mul (Seconds i) (Finite 1000000000))
      = word_of_int (sint (Round (f64_mul (Seconds i) (Finite 1000000000))))"
    by simp
  then show ?thesis
    unfolding Duration_def scast_eq ucast_eq
    by (simp only: of_int_add of_int_mult of_int_numeral)
qed

text \<open>
  C9, as stated: for every Interval and every \<open>daysInMonth\<close> and \<open>secondsInDay\<close> the
  result is \<open>(Months * daysInMonth + Days) * secondsInDay\<close> seconds plus the rounded
  nanoseconds. The result is an \<open>int64\<close> count of nanoseconds and the products wrap
  around: for \<open>Months = 2147483647\<close>, \<open>daysInMonth = 255\<close>,
  \<open>secondsInDay = 4294967295\<close> and zero seconds the value of the formula is about
  \<open>2.35 * 10^30\<close> nanoseconds, which no \<open>int64\<close> holds.
\<close>

theorem Duration_overflow_counterexample:
  "sint (Duration Round_nearest \<lparr>Months = 2147483647, Days = 0, Seconds = Finite 0\<rparr>
           255 4294967295)
    \<noteq> (2147483647 * 255 + 0) * 4294967295 * 1000000000
        + sint (Round_nearest (f64_mul (Finite 0) (Finite 1000000000)))"
  by code_simp

text \<open>
  C9, amended. Whenever \<open>(Months * daysInMonth + Days) * secondsInDay * 10^9\<close> plus
  \<open>Round(Seconds * 1e9)\<close> (the \<open>float64\<close> product, rounded to an integer by
  \<open>mathhelper.Round\<close>) fits \<open>int64\<close>, \<open>Duration\<close> is exactly that number of
  nanoseconds. In particular, provided \<open>Round(1e9) = 10^9\<close>,
  \<open>Duration({0, 10, 1}, 30, 86400)\<close> is 864001 seconds.
\<close>

theorem Duration_exact:
  "(- (2 ^ 63) \<le> (sint (Months i) * uint dpm + sint (Days i)) * uint spd * 1000000000
        + sint (Round (f64_mul (Seconds i) (Finite 1000000000))) \<and>
    (sint (Months i) * uint dpm + sint (Days i)) * uint spd * 1000000000
        + sint (Round (f64_mul (Seconds i) (Finite 1000000000))) < 2 ^ 63
    \<longrightarrow> sint (Duration Round i dpm spd) =
       (sint (Months i) * uint dpm + sint (Days i)) * uint spd * 1000000000
        + sint (Round (f64_mul (Seconds i) (Finite 1000000000)))) \<and>
   (Round (Finite 1000000000) = 1000000000 \<longrightarrow>
      sint (Duration Round \<lparr>Months = 0, Days = 10, Seconds = Finite 1\<rparr> 30 86400)
        = 864001 * 1000000000)"
proof (intro conjI impI)
  assume "- (2 ^ 63) \<le> (sint (Months i) * uint dpm + sint (Days i)) * uint spd * 1000000000
        + sint (Round (f64_mul (Seconds i) (Finite 1000000000))) \<and>
    (sint (Months i) * uint dpm + sint (Days i)) * uint spd * 1000000000
        + sint (Round (f64_mul (Seconds i) (Finite 1000000000))) < 2 ^ 63"
  then show "sint (Duration Round i dpm spd) =
       (sint (Months i) * uint dpm + sint (Days i)) * uint spd * 1000000000
        + sint (Round (f64_mul (Seconds i) (Finite 1000000000)))"
    unfolding Duration_word by (intro sint_int64_of_int) simp_all
next
  assume r: "Round (Finite 1000000000) = 1000000000"
  have m: "f64_round 1000000000 = Finite 1000000000"
    by code_simp
  show "sint (Duration Round \<lparr>Months = 0, Days = 10, Seconds = Finite 1\<rparr> 30 86400)
        = 864001 * 1000000000"
    by (simp add: Duration_def m r)
qed

theorem Duration_exact_witness:
  "- (2 ^ 63) \<le> (sint (Months \<lparr>Months = - 10, Days = - 5, Seconds = Finite (- 1)\<rparr>) * uint (30 :: 8 word)
        + sint (Days \<lparr>Months = - 10, Days = - 5, Seconds = Finite (- 1)\<rparr>)) * uint (84000 :: 32 word) * 1000000000
        + sint (Round_nearest (f64_mul (Seconds \<lparr>Months = - 10, Days = - 5, Seconds = Finite (- 1)\<rparr>)
             (Finite 1000000000))) \<and>
   (sint (Months \<lparr>Months = - 10, Days = - 5, Seconds = Finite (- 1)\<rparr>) * uint (30 :: 8 word)
        + sint (Days \<lparr>Months = - 10, Days = - 5, Seconds = Finite (- 1)\<rparr>)) * uint (84000 :: 32 word) * 1000000000
        + sint (Round_nearest (f64_mul (Seconds \<lparr>Months = - 10, Days = - 5, Seconds = Finite (- 1)\<rparr>)
             (Finite 1000000000))) < 2 ^ 63 \<and>
   sint (Duration Round_nearest \<lparr>Months = - 10, Days = - 5, Seconds = Finite (- 1)\<rparr> 30 84000)
     = - 25620001 * 1000000000 \<and>
   Round_nearest (Finite 1000000000) = 1000000000 \<and>
   sint (Duration Round_nearest \<lparr>Months = 0, Days = 10, Seconds = Finite 1\<rparr> 30 86400)
     = 864001 * 1000000000"
proof -
  let ?i = "\<lparr>Months = - 10, Days = - 5, Seconds = Finite (- 1)\<rparr>"
  have e: "(sint (Months ?i) * uint (30 :: 8 word) + sint (Days ?i)) * uint (84000 :: 32 word) * 1000000000
        + sint (Round_nearest (f64_mul (Seconds ?i) (Finite 1000000000)))
      = - 25620001 * 1000000000"
    by code_simp
  have lo: "- (2 ^ 63) \<le> (sint (Months ?i) * uint (30 :: 8 word) + sint (Days ?i)) * uint (84000 :: 32 word) * 1000000000
        + sint (Round_nearest (f64_mul (Seconds ?i) (Finite 1000000000)))"
    unfolding e by simp
  have hi: "(sint (Months ?i) * uint (30 :: 8 word) + sint (Days ?i)) * uint (84000 :: 32 word) * 1000000000
        + sint (Round_nearest (f64_mul (Seconds ?i) (Finite 1000000000))) < 2 ^ 63"
    unfolding e by simp
  have r: "Round_nearest (Finite 1000000000) = 1000000000"
    by code_simp
  note A = Duration_exact [of ?i 30 84000 Round_nearest]
  from A lo hi have "sint (Duration Round_nearest ?i 30 84000)
      = (sint (Months ?i) * uint (30 :: 8 word) + sint (Days ?i)) * uint (84000 :: 32 word) * 1000000000
        + sint (Round_nearest (f64_mul (Seconds ?i) (Finite 1000000000)))"
    by blast
  then have d: "sint (Duration Round_nearest ?i 30 84000) = - 25620001 * 1000000000"
    by (simp only: e)
  from A r have x: "sint (Duration Round_nearest \<lparr>Months = 0, Days = 10, Seconds = Finite 1\<rparr> 30 86400)
     = 864001 * 1000000000"
    by blast
  from lo hi d r x show ?thesis by blast
qed

section \<open>Properties of Parse\<close>

text \<open>
  C1. \<open>Parse\<close> accepts the worked examples of the spec and computes:
  \<open>"-1 year -2 mons +3 days -04:05:06"\<close> gives \<open>{-14, 3, -14706}\<close>, the empty string
  gives the zero Interval, and \<open>"2 year -34:56:78"\<close> gives \<open>{24, 0, -125838}\<close>, each
  with no error.
\<close>

theorem Parse_examples:
  "Parse ''-1 year -2 mons +3 days -04:05:06''
     = (\<lparr>Months = - 14, Days = 3, Seconds = Finite (- 14706)\<rparr>, None) \<and>
   Parse [] = (\<lparr>Months = 0, Days = 0, Seconds = Finite 0\<rparr>, None) \<and>
   Parse ''2 year -34:56:78''
     = (\<lparr>Months = 24, Days = 0, Seconds = Finite (- 125838)\<rparr>, None)"
  by code_simp

text \<open>
  C3 says that a numeric field that does not fit its width, the year value multiplied
  by 12 included, is a parse error and never a wrapped Interval. The code checks the
  width of each number as written (\<open>ParseInt(..., 32)\<close>) but multiplies the years by 12
  and adds the months in \<open>int32\<close> without a check (the source notes
  \<open>TODO add check for overflow\<close>): \<open>"2147483647 year"\<close> is accepted, and the months
  wrap around to \<open>-12\<close>; \<open>"2147483647 mons"\<close> after \<open>"1 year"\<close> wraps to
  \<open>-2147483637\<close>.
\<close>

theorem Parse_years_wrap:
  "Parse ''2147483647 year'' = (\<lparr>Months = - 12, Days = 0, Seconds = Finite 0\<rparr>, None) \<and>
   Parse ''1 year 2147483647 mons''
     = (\<lparr>Months = - 2147483637, Days = 0, Seconds = Finite 0\<rparr>, None)"
  by code_simp

text \<open>
  C7, as stated: whenever \<open>Parse\<close> returns an error, the Interval beside it is the zero
  value. The results of \<open>Parse\<close> are named and a failing conversion returns at once:
  in \<open>"1 year 99999999999 mons"\<close> the year is applied before the months fail, and the
  Interval returned with the error holds 12 months.
\<close>

theorem Parse_partial_counterexample:
  "Parse ''1 year 99999999999 mons''
     = (\<lparr>Months = 12, Days = 0, Seconds = Finite 0\<rparr>, Some ErrRange) \<and>
   \<lparr>Months = 12, Days = 0, Seconds = Finite 0\<rparr> \<noteq> zero_Interval"
  by code_simp

lemma ParseUint_loop_error: "ParseUint_loop mx n s = Inl e \<Longrightarrow> e = ErrSyntax \<or> e = ErrRange"
  by (induction mx n s rule: ParseUint_loop.induct) (auto split: if_splits)

lemma ParseInt_error: "ParseInt s b = Inl e \<Longrightarrow> e = ErrSyntax \<or> e = ErrRange"
  by (auto simp: ParseInt_def ParseUint_def Let_def split: if_splits sum.splits
      dest: ParseUint_loop_error)

lemma ParseFloat_error: "ParseFloat s = Inl e \<Longrightarrow> e = ErrSyntax \<or> e = ErrRange"
  by (auto simp: ParseFloat_def Let_def split: if_splits option.splits prod.splits f64.splits)

lemma and_then_num_error:
  "num_error r \<Longrightarrow> (\<And>i. num_error (f i)) \<Longrightarrow> num_error (and_then r f)"
  by (cases r) (auto simp: and_then_def num_error_def split: option.splits)

lemma steps_num_error:
  "num_error (parse_years parts i)" "num_error (parse_months parts i)"
  "num_error (parse_days parts i)" "num_error (parse_hours parts i)"
  "num_error (parse_minutes parts i)" "num_error (parse_seconds parts i)"
  "num_error (fix_sign parts i)"
  by (auto simp: num_error_def parse_years_def parse_months_def parse_days_def parse_hours_def
      parse_minutes_def parse_seconds_def fix_sign_def split: sum.splits
      dest: ParseInt_error ParseFloat_error)

lemma rx_match_length:
  "(t, c) \<in> set (rx_match r s caps) \<Longrightarrow> length c = length caps"
proof (induction r arbitrary: s caps t c)
  case (Cat a b)
  then show ?case by (fastforce simp: split_def)
next
  case (Grp n a)
  then show ?case by (fastforce simp: split_def)
qed (auto split: if_splits list.splits)

lemma FindStringSubmatch_length:
  assumes "FindStringSubmatch r n s = Some parts"
  shows "length parts = Suc n"
proof -
  from assms obtain t caps rest where
    f: "filter (\<lambda>(t, caps). t = []) (rx_match r s (replicate (Suc n) [])) = (t, caps) # rest"
    and p: "parts = caps[0 := s]"
    by (auto simp: FindStringSubmatch_def split: list.splits)
  have "(t, caps) \<in> set (filter (\<lambda>(t, caps). t = []) (rx_match r s (replicate (Suc n) [])))"
    unfolding f by simp
  then have "(t, caps) \<in> set (rx_match r s (replicate (Suc n) []))"
    by (simp only: set_filter mem_Collect_eq)
  then have "length caps = length (replicate (Suc n) ([] :: string))"
    by (rule rx_match_length)
  with p show ?thesis by simp
qed

lemma parse_years_err: "read_int (parts ! 1) 32 = Inl e \<Longrightarrow> parse_years parts i = (i, Some e)"
  by (auto simp: read_int_def parse_years_def split: if_splits sum.splits)

lemma parse_years_ok:
  "read_int (parts ! 1) 32 = Inr y \<Longrightarrow>
   parse_years parts \<lparr>Months = 0, Days = d, Seconds = c\<rparr>
     = (\<lparr>Months = years_months y, Days = d, Seconds = c\<rparr>, None)"
  by (auto simp: read_int_def parse_years_def years_months_def split: if_splits sum.splits)

lemma parse_months_err: "read_int (parts ! 2) 32 = Inl e \<Longrightarrow> parse_months parts i = (i, Some e)"
  by (auto simp: read_int_def parse_months_def split: if_splits sum.splits)

lemma parse_months_ok:
  "read_int (parts ! 2) 32 = Inr mo \<Longrightarrow>
   parse_months parts \<lparr>Months = a, Days = d, Seconds = c\<rparr>
     = (\<lparr>Months = a + int32_field mo, Days = d, Seconds = c\<rparr>, None)"
  by (auto simp: read_int_def parse_months_def int32_field_def split: if_splits sum.splits)

lemma parse_days_err: "read_int (parts ! 3) 32 = Inl e \<Longrightarrow> parse_days parts i = (i, Some e)"
  by (auto simp: read_int_def parse_days_def split: if_splits sum.splits)

lemma parse_days_ok:
  "read_int (parts ! 3) 32 = Inr dd \<Longrightarrow>
   parse_days parts \<lparr>Months = a, Days = 0, Seconds = c\<rparr>
     = (\<lparr>Months = a, Days = int32_field dd, Seconds = c\<rparr>, None)"
  by (auto simp: read_int_def parse_days_def int32_field_def split: if_splits sum.splits)

lemma parse_hours_err: "read_int (parts ! 5) 64 = Inl e \<Longrightarrow> parse_hours parts i = (i, Some e)"
  by (auto simp: read_int_def parse_hours_def split: if_splits sum.splits)

lemma parse_hours_ok:
  "read_int (parts ! 5) 64 = Inr h \<Longrightarrow>
   parse_hours parts \<lparr>Months = a, Days = d, Seconds = Finite 0\<rparr>
     = (\<lparr>Months = a, Days = d, Seconds = hours_seconds h\<rparr>, None)"
  by (auto simp: read_int_def parse_hours_def hours_seconds_def split: if_splits sum.splits)

lemma parse_minutes_err: "read_int (parts ! 6) 64 = Inl e \<Longrightarrow> parse_minutes parts i = (i, Some e)"
  by (auto simp: read_int_def parse_minutes_def split: if_splits sum.splits)

lemma parse_minutes_ok:
  "read_int (parts ! 6) 64 = Inr mi \<Longrightarrow>
   parse_minutes parts \<lparr>Months = a, Days = d, Seconds = c\<rparr>
     = (\<lparr>Months = a, Days = d, Seconds = minutes_seconds c mi\<rparr>, None)"
  by (auto simp: read_int_def parse_minutes_def minutes_seconds_def split: if_splits sum.splits)

lemma parse_seconds_err: "read_float (parts ! 7) = Inl e \<Longrightarrow> parse_seconds parts i = (i, Some e)"
  by (auto simp: read_float_def parse_seconds_def split: if_splits sum.splits)

lemma parse_seconds_ok:
  "read_float (parts ! 7) = Inr sec \<Longrightarrow>
   parse_seconds parts \<lparr>Months = a, Days = d, Seconds = c\<rparr>
     = (\<lparr>Months = a, Days = d, Seconds = seconds_seconds c sec\<rparr>, None)"
  by (auto simp: read_float_def parse_seconds_def seconds_seconds_def split: if_splits sum.splits)

lemma Parse_matched:
  assumes "FindStringSubmatch re 7 s = Some parts"
  shows "Parse s =
     and_then (parse_years parts \<lparr>Months = 0, Days = 0, Seconds = Finite 0\<rparr>) (\<lambda>i.
     and_then (parse_months parts i) (\<lambda>i.
     and_then (parse_days parts i) (\<lambda>i.
     and_then (parse_hours parts i) (\<lambda>i.
     and_then (parse_minutes parts i) (\<lambda>i.
     and_then (parse_seconds parts i) (\<lambda>i.
     fix_sign parts i))))))"
  using assms FindStringSubmatch_length [OF assms]
  by (simp add: Parse_def zero_Interval_def)

text \<open>
  C7, amended. Whenever the input does not match the pattern, \<open>Parse\<close> returns the zero
  Interval beside its error, and an error of a failed match
  (\<open>Unable to parse interval from string ...\<close>) always comes with the zero Interval.
  Whenever the input matches and a numeric conversion fails, the Interval beside the
  error holds exactly the fields applied before the failing group and zero elsewhere:
  the zero Interval if the years fail; the months of the years (times 12) if the
  months fail; the months of years and months if the days fail; those months and the
  days, with zero seconds, if the hours fail; the seconds of the hours (times 3600) if
  the minutes fail; and the seconds of hours and minutes, not negated, if the seconds
  fail. When every conversion succeeds there is no error, and the sign is applied.
\<close>

theorem Parse_error_interval:
  "(FindStringSubmatch re 7 s = None \<longrightarrow> Parse s = (zero_Interval, Some (UnableToParse s))) \<and>
   (snd (Parse s) = Some (UnableToParse t) \<longrightarrow> fst (Parse s) = zero_Interval) \<and>
   (FindStringSubmatch re 7 s = Some parts \<longrightarrow>
     (read_int (parts ! 1) 32 = Inl e \<longrightarrow>
        Parse s = (\<lparr>Months = 0, Days = 0, Seconds = Finite 0\<rparr>, Some e)) \<and>
     (read_int (parts ! 1) 32 = Inr y \<and>
      read_int (parts ! 2) 32 = Inl e \<longrightarrow>
        Parse s = (\<lparr>Months = years_months y, Days = 0, Seconds = Finite 0\<rparr>, Some e)) \<and>
     (read_int (parts ! 1) 32 = Inr y \<and>
      read_int (parts ! 2) 32 = Inr mo \<and>
      read_int (parts ! 3) 32 = Inl e \<longrightarrow>
        Parse s = (\<lparr>Months = years_months y + int32_field mo, Days = 0, Seconds = Finite 0\<rparr>, Some e)) \<and>
     (read_int (parts ! 1) 32 = Inr y \<and>
      read_int (parts ! 2) 32 = Inr mo \<and>
      read_int (parts ! 3) 32 = Inr dd \<and>
      read_int (parts ! 5) 64 = Inl e \<longrightarrow>
        Parse s = (\<lparr>Months = years_months y + int32_field mo, Days = int32_field dd, Seconds = Finite 0\<rparr>, Some e)) \<and>
     (read_int (parts ! 1) 32 = Inr y \<and>
      read_int (parts ! 2) 32 = Inr mo \<and>
      read_int (parts ! 3) 32 = Inr dd \<and>
      read_int (parts ! 5) 64 = Inr h \<and>
      read_int (parts ! 6) 64 = Inl e \<longrightarrow>
        Parse s = (\<lparr>Months = years_months y + int32_field mo, Days = int32_field dd, Seconds = hours_seconds h\<rparr>, Some e)) \<and>
     (read_int (parts ! 1) 32 = Inr y \<and>
      read_int (parts ! 2) 32 = Inr mo \<and>
      read_int (parts ! 3) 32 = Inr dd \<and>
      read_int (parts ! 5) 64 = Inr h \<and>
      read_int (parts ! 6) 64 = Inr mi \<and>
      read_float (parts ! 7) = Inl e \<longrightarrow>
        Parse s = (\<lparr>Months = years_months y + int32_field mo, Days = int32_field dd, Seconds = minutes_seconds (hours_seconds h) mi\<rparr>, Some e)) \<and>
     (read_int (parts ! 1) 32 = Inr y \<and>
      read_int (parts ! 2) 32 = Inr mo \<and>
      read_int (parts ! 3) 32 = Inr dd \<and>
      read_int (parts ! 5) 64 = Inr h \<and>
      read_int (parts ! 6) 64 = Inr mi \<and>
      read_float (parts ! 7) = Inr sec \<longrightarrow>
        Parse s =
          (\<lparr>Months = years_months y + int32_field mo, Days = int32_field dd,
             Seconds = (if parts ! 4 = ''-'' then f64_mul (seconds_seconds (minutes_seconds (hours_seconds h) mi) sec) (Finite (- 1))
                        else seconds_seconds (minutes_seconds (hours_seconds h) mi) sec)\<rparr>, None)))"
proof (intro conjI impI)
  assume "FindStringSubmatch re 7 s = None"
  then show "Parse s = (zero_Interval, Some (UnableToParse s))"
    by (simp add: Parse_def)
next
  assume e: "snd (Parse s) = Some (UnableToParse t)"
  show "fst (Parse s) = zero_Interval"
  proof (cases "FindStringSubmatch re 7 s")
    case None
    then show ?thesis by (simp add: Parse_def)
  next
    case (Some ps)
    have "num_error (Parse s)"
      unfolding Parse_matched [OF Some]
      by (simp add: and_then_num_error steps_num_error)
    with e show ?thesis by (simp add: num_error_def)
  qed
next
  assume m: "FindStringSubmatch re 7 s = Some parts"
  assume "read_int (parts ! 1) 32 = Inl e"
  then show "Parse s = (\<lparr>Months = 0, Days = 0, Seconds = Finite 0\<rparr>, Some e)"
    by (simp add: Parse_matched [OF m] parse_years_err and_then_def zero_Interval_def)
next
  assume m: "FindStringSubmatch re 7 s = Some parts"
  assume "read_int (parts ! 1) 32 = Inr y \<and>
      read_int (parts ! 2) 32 = Inl e"
  then show "Parse s = (\<lparr>Months = years_months y, Days = 0, Seconds = Finite 0\<rparr>, Some e)"
    by (simp add: Parse_matched [OF m] parse_years_ok parse_months_err and_then_def)
next
  assume m: "FindStringSubmatch re 7 s = Some parts"
  assume "read_int (parts ! 1) 32 = Inr y \<and>
      read_int (parts ! 2) 32 = Inr mo \<and>
      read_int (parts ! 3) 32 = Inl e"
  then show "Parse s = (\<lparr>Months = years_months y + int32_field mo, Days = 0, Seconds = Finite 0\<rparr>, Some e)"
    by (simp add: Parse_matched [OF m] parse_years_ok parse_months_ok parse_days_err and_then_def)
next
  assume m: "FindStringSubmatch re 7 s = Some parts"
  assume "read_int (parts ! 1) 32 = Inr y \<and>
      read_int (parts ! 2) 32 = Inr mo \<and>
      read_int (parts ! 3) 32 = Inr dd \<and>
      read_int (parts ! 5) 64 = Inl e"
  then show "Parse s = (\<lparr>Months = years_months y + int32_field mo, Days = int32_field dd, Seconds = Finite 0\<rparr>, Some e)"
    by (simp add: Parse_matched [OF m] parse_years_ok parse_months_ok parse_days_ok parse_hours_err and_then_def)
next
  assume m: "FindStringSubmatch re 7 s = Some parts"
  assume "read_int (parts ! 1) 32 = Inr y \<and>
      read_int (parts ! 2) 32 = Inr mo \<and>
      read_int (parts ! 3) 32 = Inr dd \<and>
      read_int (parts ! 5) 64 = Inr h \<and>
      read_int (parts ! 6) 64 = Inl e"
  then show "Parse s = (\<lparr>Months = years_months y + int32_field mo, Days = int32_field dd, Seconds = hours_seconds h\<rparr>, Some e)"
    by (simp add: Parse_matched [OF m] parse_years_ok parse_months_ok parse_days_ok parse_hours_ok parse_minutes_err and_then_def)
next
  assume m: "FindStringSubmatch re 7 s = Some parts"
  assume "read_int (parts ! 1) 32 = Inr y \<and>
      read_int (parts ! 2) 32 = Inr mo \<and>
      read_int (parts ! 3) 32 = Inr dd \<and>
      read_int (parts ! 5) 64 = Inr h \<and>
      read_int (parts ! 6) 64 = Inr mi \<and>
      read_float (parts ! 7) = Inl e"
  then show "Parse s = (\<lparr>Months = years_months y + int32_field mo, Days = int32_field dd, Seconds = minutes_seconds (hours_seconds h) mi\<rparr>, Some e)"
    by (simp add: Parse_matched [OF m] parse_years_ok parse_months_ok parse_days_ok parse_hours_ok parse_minutes_ok parse_seconds_err and_then_def)
next
  assume m: "FindStringSubmatch re 7 s = Some parts"
  assume "read_int (parts ! 1) 32 = Inr y \<and>
      read_int (parts ! 2) 32 = Inr mo \<and>
      read_int (parts ! 3) 32 = Inr dd \<and>
      read_int (parts ! 5) 64 = Inr h \<and>
      read_int (parts ! 6) 64 = Inr mi \<and>
      read_float (parts ! 7) = Inr sec"
  then show "Parse s =
          (\<lparr>Months = years_months y + int32_field mo, Days = int32_field dd,
             Seconds = (if parts ! 4 = ''-'' then f64_mul (seconds_seconds (minutes_seconds (hours_seconds h) mi) sec) (Finite (- 1))
                        else seconds_seconds (minutes_seconds (hours_seconds h) mi) sec)\<rparr>, None)"
    by (simp add: Parse_matched [OF m] parse_years_ok parse_months_ok parse_days_ok parse_hours_ok parse_minutes_ok parse_seconds_ok and_then_def fix_sign_def)
qed

theorem Parse_error_interval_witness:
  "FindStringSubmatch re 7 ''00:00'' = None \<and>
   Parse ''00:00'' = (zero_Interval, Some (UnableToParse ''00:00'')) \<and>
   fst (Parse ''00:00'') = zero_Interval \<and>
   FindStringSubmatch re 7 ''99999999999 year'' = Some [''99999999999 year'', ''99999999999'', [], [], [], [], [], []] \<and>
   read_int ([''99999999999 year'', ''99999999999'', [], [], [], [], [], []] ! 1) 32 = Inl ErrRange \<and>
   Parse ''99999999999 year'' = (\<lparr>Months = 0, Days = 0, Seconds = Finite 0\<rparr>, Some ErrRange) \<and>
   FindStringSubmatch re 7 ''1 year 99999999999 mons'' = Some [''1 year 99999999999 mons'', ''1'', ''99999999999'', [], [], [], [], []] \<and>
   read_int ([''1 year 99999999999 mons'', ''1'', ''99999999999'', [], [], [], [], []] ! 2) 32 = Inl ErrRange \<and>
   Parse ''1 year 99999999999 mons'' = (\<lparr>Months = 12, Days = 0, Seconds = Finite 0\<rparr>, Some ErrRange) \<and>
   FindStringSubmatch re 7 ''1 year 2 mons 99999999999 days'' = Some [''1 year 2 mons 99999999999 days'', ''1'', ''2'', ''99999999999'', [], [], [], []] \<and>
   read_int ([''1 year 2 mons 99999999999 days'', ''1'', ''2'', ''99999999999'', [], [], [], []] ! 3) 32 = Inl ErrRange \<and>
   Parse ''1 year 2 mons 99999999999 days'' = (\<lparr>Months = 14, Days = 0, Seconds = Finite 0\<rparr>, Some ErrRange) \<and>
   FindStringSubmatch re 7 ''1 year 2 mons 3 days 99999999999999999999:05:06'' = Some [''1 year 2 mons 3 days 99999999999999999999:05:06'', ''1'', ''2'', ''3'', [], ''99999999999999999999'', ''05'', ''06''] \<and>
   read_int ([''1 year 2 mons 3 days 99999999999999999999:05:06'', ''1'', ''2'', ''3'', [], ''99999999999999999999'', ''05'', ''06''] ! 5) 64 = Inl ErrRange \<and>
   Parse ''1 year 2 mons 3 days 99999999999999999999:05:06'' = (\<lparr>Months = 14, Days = 3, Seconds = Finite 0\<rparr>, Some ErrRange) \<and>
   FindStringSubmatch re 7 ''1 year 2 mons 3 days 04:99999999999999999999:06'' = Some [''1 year 2 mons 3 days 04:99999999999999999999:06'', ''1'', ''2'', ''3'', [], ''04'', ''99999999999999999999'', ''06''] \<and>
   read_int ([''1 year 2 mons 3 days 04:99999999999999999999:06'', ''1'', ''2'', ''3'', [], ''04'', ''99999999999999999999'', ''06''] ! 6) 64 = Inl ErrRange \<and>
   Parse ''1 year 2 mons 3 days 04:99999999999999999999:06'' = (\<lparr>Months = 14, Days = 3, Seconds = Finite 14400\<rparr>, Some ErrRange) \<and>
   FindStringSubmatch re 7 ''1 year 2 mons 3 days -04:05:0-15'' = Some [''1 year 2 mons 3 days -04:05:0-15'', ''1'', ''2'', ''3'', ''-'', ''04'', ''05'', ''0-15''] \<and>
   read_float ([''1 year 2 mons 3 days -04:05:0-15'', ''1'', ''2'', ''3'', ''-'', ''04'', ''05'', ''0-15''] ! 7) = Inl ErrSyntax \<and>
   Parse ''1 year 2 mons 3 days -04:05:0-15'' = (\<lparr>Months = 14, Days = 3, Seconds = Finite 14700\<rparr>, Some ErrSyntax) \<and>
   FindStringSubmatch re 7 ''1 year 2 mons 3 days -04:05:06'' = Some [''1 year 2 mons 3 days -04:05:06'', ''1'', ''2'', ''3'', ''-'', ''04'', ''05'', ''06''] \<and>
   Parse ''1 year 2 mons 3 days -04:05:06'' = (\<lparr>Months = 14, Days = 3, Seconds = Finite (- 14706)\<rparr>, None)"
proof -
  have n: "FindStringSubmatch re 7 ''00:00'' = None"
    by code_simp
  from n Parse_error_interval [where s = "''00:00''"]
  have p: "Parse ''00:00'' = (zero_Interval, Some (UnableToParse ''00:00''))"
    by blast
  then have u: "snd (Parse ''00:00'') = Some (UnableToParse ''00:00'')"
    by simp
  from u Parse_error_interval [where s = "''00:00''" and t = "''00:00''"]
  have z: "fst (Parse ''00:00'') = zero_Interval"
    by blast
  have m0: "FindStringSubmatch re 7 ''99999999999 year'' = Some [''99999999999 year'', ''99999999999'', [], [], [], [], [], []]"
    by code_simp
  have f0: "read_int ([''99999999999 year'', ''99999999999'', [], [], [], [], [], []] ! 1) 32 = Inl ErrRange"
    by code_simp
  from m0 f0 Parse_error_interval
    [where s = "''99999999999 year''" and parts = "[''99999999999 year'', ''99999999999'', [], [], [], [], [], []]" and e = ErrRange]
  have c0: "Parse ''99999999999 year'' = (\<lparr>Months = 0, Days = 0, Seconds = Finite 0\<rparr>, Some ErrRange)"
    by blast
  have d0: "Parse ''99999999999 year'' = (\<lparr>Months = 0, Days = 0, Seconds = Finite 0\<rparr>, Some ErrRange)"
    using c0 by (simp add: zero_Interval_def)
  have m1: "FindStringSubmatch re 7 ''1 year 99999999999 mons'' = Some [''1 year 99999999999 mons'', ''1'', ''99999999999'', [], [], [], [], []]"
    by code_simp
  have r10: "read_int ([''1 year 99999999999 mons'', ''1'', ''99999999999'', [], [], [], [], []] ! 1) 32 = Inr (Some 1)"
    by code_simp
  have f1: "read_int ([''1 year 99999999999 mons'', ''1'', ''99999999999'', [], [], [], [], []] ! 2) 32 = Inl ErrRange"
    by code_simp
  from m1 r10 f1 Parse_error_interval
    [where s = "''1 year 99999999999 mons''" and parts = "[''1 year 99999999999 mons'', ''1'', ''99999999999'', [], [], [], [], []]" and y = "Some 1" and e = ErrRange]
  have c1: "Parse ''1 year 99999999999 mons'' = (\<lparr>Months = years_months (Some 1), Days = 0, Seconds = Finite 0\<rparr>, Some ErrRange)"
    by blast
  have v10: "years_months (Some 1) = 12"
    by code_simp
  have d1: "Parse ''1 year 99999999999 mons'' = (\<lparr>Months = 12, Days = 0, Seconds = Finite 0\<rparr>, Some ErrRange)"
    using c1 by (simp only: v10)
  have m2: "FindStringSubmatch re 7 ''1 year 2 mons 99999999999 days'' = Some [''1 year 2 mons 99999999999 days'', ''1'', ''2'', ''99999999999'', [], [], [], []]"
    by code_simp
  have r20: "read_int ([''1 year 2 mons 99999999999 days'', ''1'', ''2'', ''99999999999'', [], [], [], []] ! 1) 32 = Inr (Some 1)"
    by code_simp
  have r21: "read_int ([''1 year 2 mons 99999999999 days'', ''1'', ''2'', ''99999999999'', [], [], [], []] ! 2) 32 = Inr (Some 2)"
    by code_simp
  have f2: "read_int ([''1 year 2 mons 99999999999 days'', ''1'', ''2'', ''99999999999'', [], [], [], []] ! 3) 32 = Inl ErrRange"
    by code_simp
  from m2 r20 r21 f2 Parse_error_interval
    [where s = "''1 year 2 mons 99999999999 days''" and parts = "[''1 year 2 mons 99999999999 days'', ''1'', ''2'', ''99999999999'', [], [], [], []]" and y = "Some 1" and mo = "Some 2" and e = ErrRange]
  have c2: "Parse ''1 year 2 mons 99999999999 days'' = (\<lparr>Months = years_months (Some 1) + int32_field (Some 2), Days = 0, Seconds = Finite 0\<rparr>, Some ErrRange)"
    by blast
  have v20: "years_months (Some 1) + int32_field (Some 2) = 14"
    by code_simp
  have d2: "Parse ''1 year 2 mons 99999999999 days'' = (\<lparr>Months = 14, Days = 0, Seconds = Finite 0\<rparr>, Some ErrRange)"
    using c2 by (simp only: v20)
  have m3: "FindStringSubmatch re 7 ''1 year 2 mons 3 days 99999999999999999999:05:06'' = Some [''1 year 2 mons 3 days 99999999999999999999:05:06'', ''1'', ''2'', ''3'', [], ''99999999999999999999'', ''05'', ''06'']"
    by code_simp
  have r30: "read_int ([''1 year 2 mons 3 days 99999999999999999999:05:06'', ''1'', ''2'', ''3'', [], ''99999999999999999999'', ''05'', ''06''] ! 1) 32 = Inr (Some 1)"
    by code_simp
  have r31: "read_int ([''1 year 2 mons 3 days 99999999999999999999:05:06'', ''1'', ''2'', ''3'', [], ''99999999999999999999'', ''05'', ''06''] ! 2) 32 = Inr (Some 2)"
    by code_simp
  have r32: "read_int ([''1 year 2 mons 3 days 99999999999999999999:05:06'', ''1'', ''2'', ''3'', [], ''99999999999999999999'', ''05'', ''06''] ! 3) 32 = Inr (Some 3)"
    by code_simp
  have f3: "read_int ([''1 year 2 mons 3 days 99999999999999999999:05:06'', ''1'', ''2'', ''3'', [], ''99999999999999999999'', ''05'', ''06''] ! 5) 64 = Inl ErrRange"
    by code_simp
  from m3 r30 r31 r32 f3 Parse_error_interval
    [where s = "''1 year 2 mons 3 days 99999999999999999999:05:06''" and parts = "[''1 year 2 mons 3 days 99999999999999999999:05:06'', ''1'', ''2'', ''3'', [], ''99999999999999999999'', ''05'', ''06'']" and y = "Some 1" and mo = "Some 2" and dd = "Some 3" and e = ErrRange]
  have c3: "Parse ''1 year 2 mons 3 days 99999999999999999999:05:06'' = (\<lparr>Months = years_months (Some 1) + int32_field (Some 2), Days = int32_field (Some 3), Seconds = Finite 0\<rparr>, Some ErrRange)"
    by blast
  have v30: "years_months (Some 1) + int32_field (Some 2) = 14"
    by code_simp
  have v31: "int32_field (Some 3) = 3"
    by code_simp
  have d3: "Parse ''1 year 2 mons 3 days 99999999999999999999:05:06'' = (\<lparr>Months = 14, Days = 3, Seconds = Finite 0\<rparr>, Some ErrRange)"
    using c3 by (simp only: v30 v31)
  have m4: "FindStringSubmatch re 7 ''1 year 2 mons 3 days 04:99999999999999999999:06'' = Some [''1 year 2 mons 3 days 04:99999999999999999999:06'', ''1'', ''2'', ''3'', [], ''04'', ''99999999999999999999'', ''06'']"
    by code_simp
  have r40: "read_int ([''1 year 2 mons 3 days 04:99999999999999999999:06'', ''1'', ''2'', ''3'', [], ''04'', ''99999999999999999999'', ''06''] ! 1) 32 = Inr (Some 1)"
    by code_simp
  have r41: "read_int ([''1 year 2 mons 3 days 04:99999999999999999999:06'', ''1'', ''2'', ''3'', [], ''04'', ''99999999999999999999'', ''06''] ! 2) 32 = Inr (Some 2)"
    by code_simp
  have r42: "read_int ([''1 year 2 mons 3 days 04:99999999999999999999:06'', ''1'', ''2'', ''3'', [], ''04'', ''99999999999999999999'', ''06''] ! 3) 32 = Inr (Some 3)"
    by code_simp
  have r43: "read_int ([''1 year 2 mons 3 days 04:99999999999999999999:06'', ''1'', ''2'', ''3'', [], ''04'', ''99999999999999999999'', ''06''] ! 5) 64 = Inr (Some 4)"
    by code_simp
  have f4: "read_int ([''1 year 2 mons 3 days 04:99999999999999999999:06'', ''1'', ''2'', ''3'', [], ''04'', ''99999999999999999999'', ''06''] ! 6) 64 = Inl ErrRange"
    by code_simp
  from m4 r40 r41 r42 r43 f4 Parse_error_interval
    [where s = "''1 year 2 mons 3 days 04:99999999999999999999:06''" and parts = "[''1 year 2 mons 3 days 04:99999999999999999999:06'', ''1'', ''2'', ''3'', [], ''04'', ''99999999999999999999'', ''06'']" and y = "Some 1" and mo = "Some 2" and dd = "Some 3" and h = "Some 4" and e = ErrRange]
  have c4: "Parse ''1 year 2 mons 3 days 04:99999999999999999999:06'' = (\<lparr>Months = years_months (Some 1) + int32_field (Some 2), Days = int32_field (Some 3), Seconds = hours_seconds (Some 4)\<rparr>, Some ErrRange)"
    by blast
  have v40: "years_months (Some 1) + int32_field (Some 2) = 14"
    by code_simp
  have v41: "int32_field (Some 3) = 3"
    by code_simp
  have v42: "hours_seconds (Some 4) = Finite 14400"
    by code_simp
  have d4: "Parse ''1 year 2 mons 3 days 04:99999999999999999999:06'' = (\<lparr>Months = 14, Days = 3, Seconds = Finite 14400\<rparr>, Some ErrRange)"
    using c4 by (simp only: v40 v41 v42)
  have m5: "FindStringSubmatch re 7 ''1 year 2 mons 3 days -04:05:0-15'' = Some [''1 year 2 mons 3 days -04:05:0-15'', ''1'', ''2'', ''3'', ''-'', ''04'', ''05'', ''0-15'']"
    by code_simp
  have r50: "read_int ([''1 year 2 mons 3 days -04:05:0-15'', ''1'', ''2'', ''3'', ''-'', ''04'', ''05'', ''0-15''] ! 1) 32 = Inr (Some 1)"
    by code_simp
  have r51: "read_int ([''1 year 2 mons 3 days -04:05:0-15'', ''1'', ''2'', ''3'', ''-'', ''04'', ''05'', ''0-15''] ! 2) 32 = Inr (Some 2)"
    by code_simp
  have r52: "read_int ([''1 year 2 mons 3 days -04:05:0-15'', ''1'', ''2'', ''3'', ''-'', ''04'', ''05'', ''0-15''] ! 3) 32 = Inr (Some 3)"
    by code_simp
  have r53: "read_int ([''1 year 2 mons 3 days -04:05:0-15'', ''1'', ''2'', ''3'', ''-'', ''04'', ''05'', ''0-15''] ! 5) 64 = Inr (Some 4)"
    by code_simp
  have r54: "read_int ([''1 year 2 mons 3 days -04:05:0-15'', ''1'', ''2'', ''3'', ''-'', ''04'', ''05'', ''0-15''] ! 6) 64 = Inr (Some 5)"
    by code_simp
  have f5: "read_float ([''1 year 2 mons 3 days -04:05:0-15'', ''1'', ''2'', ''3'', ''-'', ''04'', ''05'', ''0-15''] ! 7) = Inl ErrSyntax"
    by code_simp
  from m5 r50 r51 r52 r53 r54 f5 Parse_error_interval
    [where s = "''1 year 2 mons 3 days -04:05:0-15''" and parts = "[''1 year 2 mons 3 days -04:05:0-15'', ''1'', ''2'', ''3'', ''-'', ''04'', ''05'', ''0-15'']" and y = "Some 1" and mo = "Some 2" and dd = "Some 3" and h = "Some 4" and mi = "Some 5" and e = ErrSyntax]
  have c5: "Parse ''1 year 2 mons 3 days -04:05:0-15'' = (\<lparr>Months = years_months (Some 1) + int32_field (Some 2), Days = int32_field (Some 3), Seconds = minutes_seconds (hours_seconds (Some 4)) (Some 5)\<rparr>, Some ErrSyntax)"
    by blast
  have v50: "years_months (Some 1) + int32_field (Some 2) = 14"
    by code_simp
  have v51: "int32_field (Some 3) = 3"
    by code_simp
  have v52: "minutes_seconds (hours_seconds (Some 4)) (Some 5) = Finite 14700"
    by code_simp
  have d5: "Parse ''1 year 2 mons 3 days -04:05:0-15'' = (\<lparr>Months = 14, Days = 3, Seconds = Finite 14700\<rparr>, Some ErrSyntax)"
    using c5 by (simp only: v50 v51 v52)
  have m6: "FindStringSubmatch re 7 ''1 year 2 mons 3 days -04:05:06'' = Some [''1 year 2 mons 3 days -04:05:06'', ''1'', ''2'', ''3'', ''-'', ''04'', ''05'', ''06'']"
    by code_simp
  have r60: "read_int ([''1 year 2 mons 3 days -04:05:06'', ''1'', ''2'', ''3'', ''-'', ''04'', ''05'', ''06''] ! 1) 32 = Inr (Some 1)"
    by code_simp
  have r61: "read_int ([''1 year 2 mons 3 days -04:05:06'', ''1'', ''2'', ''3'', ''-'', ''04'', ''05'', ''06''] ! 2) 32 = Inr (Some 2)"
    by code_simp
  have r62: "read_int ([''1 year 2 mons 3 days -04:05:06'', ''1'', ''2'', ''3'', ''-'', ''04'', ''05'', ''06''] ! 3) 32 = Inr (Some 3)"
    by code_simp
  have r63: "read_int ([''1 year 2 mons 3 days -04:05:06'', ''1'', ''2'', ''3'', ''-'', ''04'', ''05'', ''06''] ! 5) 64 = Inr (Some 4)"
    by code_simp
  have r64: "read_int ([''1 year 2 mons 3 days -04:05:06'', ''1'', ''2'', ''3'', ''-'', ''04'', ''05'', ''06''] ! 6) 64 = Inr (Some 5)"
    by code_simp
  have r65: "read_float ([''1 year 2 mons 3 days -04:05:06'', ''1'', ''2'', ''3'', ''-'', ''04'', ''05'', ''06''] ! 7) = Inr (Some (Finite 6))"
    by code_simp
  from m6 r60 r61 r62 r63 r64 r65 Parse_error_interval
    [where s = "''1 year 2 mons 3 days -04:05:06''" and parts = "[''1 year 2 mons 3 days -04:05:06'', ''1'', ''2'', ''3'', ''-'', ''04'', ''05'', ''06'']" and y = "Some 1" and mo = "Some 2" and dd = "Some 3" and h = "Some 4" and mi = "Some 5" and sec = "Some (Finite 6)"]
  have c6: "Parse ''1 year 2 mons 3 days -04:05:06'' = (\<lparr>Months = years_months (Some 1) + int32_field (Some 2), Days = int32_field (Some 3), Seconds = (if [''1 year 2 mons 3 days -04:05:06'', ''1'', ''2'', ''3'', ''-'', ''04'', ''05'', ''06''] ! 4 = ''-'' then f64_mul (seconds_seconds (minutes_seconds (hours_seconds (Some 4)) (Some 5)) (Some (Finite 6))) (Finite (- 1)) else seconds_seconds (minutes_seconds (hours_seconds (Some 4)) (Some 5)) (Some (Finite 6)))\<rparr>, None)"
    by blast
  have v60: "years_months (Some 1) + int32_field (Some 2) = 14"
    by code_simp
  have v61: "int32_field (Some 3) = 3"
    by code_simp
  have v62: "(if [''1 year 2 mons 3 days -04:05:06'', ''1'', ''2'', ''3'', ''-'', ''04'', ''05'', ''06''] ! 4 = ''-'' then f64_mul (seconds_seconds (minutes_seconds (hours_seconds (Some 4)) (Some 5)) (Some (Finite 6))) (Finite (- 1)) else seconds_seconds (minutes_seconds (hours_seconds (Some 4)) (Some 5)) (Some (Finite 6))) = Finite (- 14706)"
    by code_simp
  have d6: "Parse ''1 year 2 mons 3 days -04:05:06'' = (\<lparr>Months = 14, Days = 3, Seconds = Finite (- 14706)\<rparr>, None)"
    using c6 by (simp only: v60 v61 v62)
  from n p z m0 f0 d0 m1 f1 d1 m2 f2 d2 m3 f3 d3 m4 f4 d4 m5 f5 d5 m6 d6 show ?thesis by blast
qed

text \<open>
  C8 says that an input with two or more consecutive spaces, a string of spaces
  included, is a parse error. The pattern has an optional space after each of the three
  optional fields, so up to three spaces in a row match where the fields between them
  are absent (the source notes \<open>TODO string of 1-3 spaces are parse ok\<close>): a string of
  two spaces and a string of three spaces parse to the zero Interval, and
  \<open>"1 year  3 days"\<close>, with two spaces, parses with no error. Nor are accepted
  fields joined by exactly one space: \<open>"1 year2 mons"\<close>, with none, parses as well.
\<close>

theorem Parse_accepts_double_space:
  "Parse ''  '' = (\<lparr>Months = 0, Days = 0, Seconds = Finite 0\<rparr>, None) \<and>
   Parse ''   '' = (\<lparr>Months = 0, Days = 0, Seconds = Finite 0\<rparr>, None) \<and>
   Parse ''1 year  3 days'' = (\<lparr>Months = 12, Days = 3, Seconds = Finite 0\<rparr>, None) \<and>
   Parse ''1 year2 mons'' = (\<lparr>Months = 14, Days = 0, Seconds = Finite 0\<rparr>, None)"
  by code_simp

section \<open>Properties of String\<close>

text \<open>
  C2 says that \<open>Parse(String(i))\<close> succeeds and gives \<open>i\<close> back for every Interval with
  non-zero fields. \<open>String\<close> takes the seconds of the time block from
  \<open>math.Remainder(i.Seconds, 60)\<close>, which rounds the quotient to the nearest integer
  and so is negative whenever the seconds within the minute exceed 30: for
  \<open>{1, 1, 45}\<close> it is \<open>-15\<close>, the text is \<open>"1 mons 1 days 00:00:0-15"\<close>, and
  \<open>Parse\<close> returns an error for it (the pattern's unescaped \<open>.\<close> lets \<open>0-15\<close> through
  to \<open>ParseFloat\<close>, which rejects it).
\<close>

theorem String_Parse_roundtrip_fails:
  "String \<lparr>Months = 1, Days = 1, Seconds = Finite 45\<rparr> = Some ''1 mons 1 days 00:00:0-15'' \<and>
   Parse ''1 mons 1 days 00:00:0-15''
     = (\<lparr>Months = 1, Days = 1, Seconds = Finite 0\<rparr>, Some ErrSyntax)"
  by code_simp

end
